theory Spec2Isabelle
  imports Main "HOL-Library.Word" "HOL-Library.Char_ord" "HOL-Library.List_Lexorder"
begin

section \<open>The end of a game and its conversion to a shared replay (game\_end.go)\<close>

text \<open>
  The file embeds \<^verbatim>\<open>Game.End\<close>, \<^verbatim>\<open>Game.WriteDatabase\<close> and
  \<^verbatim>\<open>Table.ConvertToSharedReplay\<close>. The Go code mutates one table and its one game
  through pointers (\<^verbatim>\<open>g.Table\<close>, \<^verbatim>\<open>t.Game\<close>); the model passes a \<open>world\<close> that
  holds both, the global table registry and a trace. The trace lists, in order, every call
  this code issues to a collaborator that is not part of the file: the notifications, the
  methods of a session, the storage gateway. A session method is recorded with its
  receiver, the handle as the code holds it (\<open>None\<close> for Go's \<^verbatim>\<open>nil\<close>); what the
  callee does with it is not in the sources (\<open>pushed\<close> models it from the
  specification). Calls to the logger are left out.
\<close>

subsection \<open>Data\<close>

type_synonym duration = "64 word" \<comment> \<open>\<^verbatim>\<open>time.Duration\<close>, an \<^verbatim>\<open>int64\<close>\<close>
type_synonym time = int \<comment> \<open>an instant, \<^verbatim>\<open>time.Time\<close>\<close>

record Session =
  Session_ID :: nat \<comment> \<open>which connection object the pointer designates\<close>
  IsClosed :: bool

record Options =
  Variant :: string
  Timed :: bool
  TimeBase :: int
  TimePerTurn :: int
  Speedrun :: bool
  CardCycle :: bool
  DeckPlays :: bool
  EmptyClues :: bool
  CharacterAssignments :: bool
  Replay :: bool

record Card =
  Card_Suit :: int
  Card_Rank :: int
  Card_Order :: int

record SimpleCard =
  SimpleCard_Suit :: int
  SimpleCard_Rank :: int

datatype Action =
    ActionDeckOrder string "SimpleCard list" \<comment> \<open>Type, Deck\<close>
  | ActionText string string \<comment> \<open>Type, Text\<close>
  | ActionOther nat \<comment> \<open>any action appended during play\<close>

record GameAction =
  GameAction_Type :: int
  GameAction_Target :: int
  GameAction_Value :: int

record Player =
  Player_ID :: int
  Player_Name :: string
  Player_Session :: "Session option"
  Present :: bool

record GamePlayer =
  GamePlayer_Name :: string
  GamePlayer_Index :: int
  Hand :: "Card list"
  GamePlayer_Notes :: "string list"
  Character :: string
  CharacterMetadata :: int
  Time :: duration

record Spectator =
  Spectator_ID :: int
  Spectator_Name :: string
  Spectator_Session :: "Session option"
  Spectator_Notes :: "string list"

record ChatMessage =
  UserID :: int
  Msg :: string

record Game =
  Game_ID :: int
  Game_Options :: Options
  Game_Players :: "GamePlayer list"
  Seed :: string
  Deck :: "Card list"
  Score :: int
  Turn :: int
  EndTurn :: int
  EndCondition :: int
  EndPlayer :: int
  Actions :: "Action list"
  Actions2 :: "GameAction list"
  Tags :: "string list" \<comment> \<open>the keys of the Go map, in the order the range visits them\<close>
  DatetimeStarted :: time
  DatetimeFinished :: time

record Table =
  Table_ID :: int
  Table_Name :: string
  Owner :: int
  Table_Players :: "Player list"
  Spectators :: "Spectator list"
  Table_Options :: Options
  Table_Replay :: bool
  Progress :: int
  Chat :: "ChatMessage list"

record GameRow =
  Row_Name :: string
  Row_NumPlayers :: int
  Row_Variant :: int
  Row_Timed :: bool
  Row_TimeBase :: int
  Row_TimePerTurn :: int
  Row_Speedrun :: bool
  Row_CardCycle :: bool
  Row_DeckPlays :: bool
  Row_EmptyClues :: bool
  Row_CharacterAssignments :: bool
  Row_Seed :: string
  Row_Score :: int
  Row_NumTurns :: int
  Row_EndCondition :: int
  Row_DatetimeStarted :: time
  Row_DatetimeFinished :: time

record GameHistory =
  History_ID :: int
  History_NumPlayers :: int
  History_Variant :: string
  History_Timed :: bool
  History_TimeBase :: int
  History_TimePerTurn :: int
  History_Speedrun :: bool
  History_CardCycle :: bool
  History_DeckPlays :: bool
  History_EmptyClues :: bool
  History_CharacterAssignments :: bool
  History_Seed :: string
  History_Score :: int
  History_NumTurns :: int
  History_EndCondition :: int
  History_DatetimeStarted :: time
  History_DatetimeFinished :: time
  History_NumSimilar :: int
  History_PlayerNames :: string
  History_IncrementNumGames :: bool

text \<open>
  Modelled from the spec: the row types \<^verbatim>\<open>UserStatsRow\<close>, \<^verbatim>\<open>VariantStatsRow\<close> and
  their best-score entries are declared by the storage layer, which is not among the
  sources. The spec calls them best-score tables indexed by player-count bucket, mutated
  at game end: \<^verbatim>\<open>BestScores\<close> is taken to hold references to its entries, so that the
  assignments through \<^verbatim>\<open>bestScore\<close> change the row that is written back. The fields
  this code neither reads nor writes are left out.
\<close>

record BestScore =
  BestScore_Score :: int
  BestScore_Modifier :: int

record UserStatsRow =
  UserStats_BestScores :: "BestScore list"

record VariantStatsRow =
  VariantStats_BestScores :: "BestScore list"

record VariantInfo =
  Variant_ID :: int
  MaxScore :: int
  Suits :: "string list"

datatype error =
    GatewayError nat \<comment> \<open>an error value returned by the storage gateway\<close>
  | ErrorsNew string \<comment> \<open>\<^verbatim>\<open>errors.New\<close>\<close>

datatype panic = IndexOutOfRange | NilPointerDereference

datatype 'a outcome = Return 'a | Panic panic

datatype message =
    RevealMessage int int int \<comment> \<open>suit, rank, order\<close>
  | GameHistoryList "GameHistory list"
  | IDMessage int int \<comment> \<open>tableID, id\<close>

datatype event =
    NotifyGameAction
  | NotifyTurn
  | NotifyGameOver
  | NotifyConnected
  | NotifySpectators
  | NotifyAllTableGone int
  | NotifyAllTable int
  | NotifyAllUser "Session option"
  | Session_Set "Session option" string int
  | Emit "Session option" string message
  | NotifyReplayLeader "Session option" bool
  | NotifyNoteList "Session option"
  | Games_Insert GameRow
  | GameParticipants_Insert int int int int int
  | GameParticipantNotes_Insert int int int string
  | GameActions_Insert int int GameAction
  | ChatLog_Insert int string string
  | GameTags_Insert int string
  | UserStats_Get int int
  | UserStats_Update int int UserStatsRow
  | VariantStats_Get int
  | VariantStats_Update int int VariantStatsRow
  | Games_GetNumSimilar string

text \<open>
  What the sources do not declare is a parameter: the constants, the static tables
  \<^verbatim>\<open>variants\<close> and \<^verbatim>\<open>characters\<close>, \<^verbatim>\<open>durationToString\<close>, the clock, and the
  answers of the storage gateway \<^verbatim>\<open>models\<close>. An answer of the gateway may depend on
  every call made so far, so each of its functions reads the trace before its arguments.
\<close>

record env =
  EndConditionNormal :: int
  EndConditionTimeout :: int
  EndConditionTerminated :: int
  EndConditionIdleTimeout :: int
  ActionTypeGameOver :: int
  StatusLobby :: int
  StatusSharedReplay :: int
  variants :: "string \<rightharpoonup> VariantInfo"
  characters :: "string \<rightharpoonup> int" \<comment> \<open>the ID of the character of that name\<close>
  durationToString :: "duration \<Rightarrow> string"
  time_Now :: time
  time_Sub :: "time \<Rightarrow> time \<Rightarrow> duration"
  models_Games_Insert :: "event list \<Rightarrow> GameRow \<Rightarrow> error + int"
  models_GameParticipants_Insert :: "event list \<Rightarrow> int \<Rightarrow> int \<Rightarrow> int \<Rightarrow> int \<Rightarrow> int \<Rightarrow> error option"
  models_GameActions_Insert :: "event list \<Rightarrow> int \<Rightarrow> int \<Rightarrow> GameAction \<Rightarrow> error option"
  models_UserStats_Get :: "event list \<Rightarrow> int \<Rightarrow> int \<Rightarrow> error + UserStatsRow"
  models_VariantStats_Get :: "event list \<Rightarrow> int \<Rightarrow> error + VariantStatsRow"
  models_VariantStats_Update :: "event list \<Rightarrow> int \<Rightarrow> int \<Rightarrow> VariantStatsRow \<Rightarrow> error option"
  models_Games_GetNumSimilar :: "event list \<Rightarrow> string \<Rightarrow> error + int"

record world =
  table :: Table
  game :: Game
  tables :: "int set" \<comment> \<open>the keys of the global map \<^verbatim>\<open>tables\<close>\<close>
  trace :: "event list"

subsection \<open>Helpers\<close>

definition call :: "event \<Rightarrow> world \<Rightarrow> world" where
  "call ev w = w\<lparr>trace := trace w @ [ev]\<rparr>"

definition index :: "'a list \<Rightarrow> int \<Rightarrow> 'a option" where
  \<comment> \<open>\<^verbatim>\<open>xs[i]\<close> with a Go \<^verbatim>\<open>int\<close>; \<open>None\<close> where Go panics\<close>
  "index xs i = (if 0 \<le> i \<and> i < int (length xs) then Some (xs ! nat i) else None)"

definition wrap_int :: "int \<Rightarrow> int" where
  \<comment> \<open>a result of \<^verbatim>\<open>int\<close> arithmetic, wrapped to 64 bits\<close>
  "wrap_int x = (x + 2 ^ 63) mod 2 ^ 64 - 2 ^ 63"

fun digits :: "nat \<Rightarrow> string" where
  "digits n = (if n < 10 then [''0123456789'' ! n]
               else digits (n div 10) @ [''0123456789'' ! (n mod 10)])"

definition Itoa :: "int \<Rightarrow> string" where
  "Itoa i = (if i < 0 then ''-'' @ digits (nat (- i)) else digits (nat i))"

declare digits.simps [simp del]

definition Join :: "string list \<Rightarrow> string \<Rightarrow> string" where
  \<comment> \<open>\<^verbatim>\<open>strings.Join\<close>\<close>
  "Join xs sep = (case xs of [] \<Rightarrow> [] | y # ys \<Rightarrow> foldl (\<lambda>acc x. acc @ sep @ x) y ys)"

definition appendAction :: "Action \<Rightarrow> world \<Rightarrow> world" where
  \<comment> \<open>\<^verbatim>\<open>g.Actions = append(g.Actions, a); t.NotifyGameAction()\<close>\<close>
  "appendAction a w = call NotifyGameAction (w\<lparr>game := (game w)\<lparr>Actions := Actions (game w) @ [a]\<rparr>\<rparr>)"

subsection \<open>WriteDatabase\<close>

type_synonym stage = "world \<Rightarrow> world \<times> error option outcome"

definition andThen :: "world \<times> error option outcome \<Rightarrow> stage \<Rightarrow> world \<times> error option outcome" where
  \<comment> \<open>the next statements run only when the ones before neither returned an error nor panicked\<close>
  "andThen r k = (case r of (w, Return None) \<Rightarrow> k w | _ \<Rightarrow> r)"

definition gameRow :: "VariantInfo \<Rightarrow> world \<Rightarrow> GameRow" where
  "gameRow v w = (let t = table w; g = game w in
     \<lparr>Row_Name = Table_Name t,
      Row_NumPlayers = int (length (Game_Players g)),
      Row_Variant = Variant_ID v,
      Row_Timed = Timed (Game_Options g),
      Row_TimeBase = TimeBase (Game_Options g),
      Row_TimePerTurn = TimePerTurn (Game_Options g),
      Row_Speedrun = Speedrun (Game_Options g),
      Row_CardCycle = CardCycle (Game_Options g),
      Row_DeckPlays = DeckPlays (Game_Options g),
      Row_EmptyClues = EmptyClues (Game_Options g),
      Row_CharacterAssignments = CharacterAssignments (Game_Options g),
      Row_Seed = Seed g,
      Row_Score = Score g,
      Row_NumTurns = Turn g,
      Row_EndCondition = EndCondition g,
      Row_DatetimeStarted = DatetimeStarted g,
      Row_DatetimeFinished = DatetimeFinished g\<rparr>)"

definition insertGame :: "env \<Rightarrow> VariantInfo \<Rightarrow> stage" where
  "insertGame e v w = (let row = gameRow v w; w' = call (Games_Insert row) w in
     case models_Games_Insert e (trace w) row of
       Inl err \<Rightarrow> (w', Return (Some err))
     | Inr i \<Rightarrow> (w'\<lparr>game := (game w')\<lparr>Game_ID := i\<rparr>\<rparr>, Return None))"

definition characterID :: "env \<Rightarrow> Table \<Rightarrow> GamePlayer \<Rightarrow> error + int" where
  "characterID e t gp =
     (if CharacterAssignments (Table_Options t) then
        (if Character gp = ''n/a'' then Inr (- 1)
         else case characters e (Character gp) of
           None \<Rightarrow> Inl (ErrorsNew (''the character of '' @ Character gp @
                     '' does not exist in the characters map''))
         | Some i \<Rightarrow> Inr i)
      else Inr 0)"

fun insertParticipants :: "env \<Rightarrow> GamePlayer list \<Rightarrow> stage" where
  "insertParticipants e [] w = (w, Return None)"
| "insertParticipants e (gp # gps) w =
     (case index (Table_Players (table w)) (GamePlayer_Index gp) of
        None \<Rightarrow> (w, Panic IndexOutOfRange)
      | Some p \<Rightarrow>
         (case characterID e (table w) gp of
            Inl err \<Rightarrow> (w, Return (Some err))
          | Inr cid \<Rightarrow>
             (let w' = call (GameParticipants_Insert (Game_ID (game w)) (Player_ID p)
                               (GamePlayer_Index gp) cid (CharacterMetadata gp)) w in
              case models_GameParticipants_Insert e (trace w) (Game_ID (game w)) (Player_ID p)
                     (GamePlayer_Index gp) cid (CharacterMetadata gp) of
                Some err \<Rightarrow> (w', Return (Some err))
              | None \<Rightarrow> insertParticipants e gps w')))"

text \<open>
  A failed insertion of a note, of a chat message or of a tag changes nothing in what
  follows, so the answers of these three calls are not read.
\<close>

fun insertNotes :: "int \<Rightarrow> int \<Rightarrow> int \<Rightarrow> string list \<Rightarrow> world \<Rightarrow> world" where
  "insertNotes pid gid j [] w = w"
| "insertNotes pid gid j (note # ns) w =
     insertNotes pid gid (j + 1) ns
       (if note = [] then w else call (GameParticipantNotes_Insert pid gid j note) w)"

fun insertAllNotes :: "GamePlayer list \<Rightarrow> stage" where
  "insertAllNotes [] w = (w, Return None)"
| "insertAllNotes (gp # gps) w =
     (case index (Table_Players (table w)) (GamePlayer_Index gp) of
        None \<Rightarrow> (w, Panic IndexOutOfRange)
      | Some p \<Rightarrow>
         insertAllNotes gps (insertNotes (Player_ID p) (Game_ID (game w)) 0 (GamePlayer_Notes gp) w))"

fun insertActions :: "env \<Rightarrow> int \<Rightarrow> GameAction list \<Rightarrow> stage" where
  "insertActions e i [] w = (w, Return None)"
| "insertActions e i (action # as) w =
     (let w' = call (GameActions_Insert (Game_ID (game w)) i action) w in
      case models_GameActions_Insert e (trace w) (Game_ID (game w)) i action of
        Some err \<Rightarrow> (w', Return (Some err))
      | None \<Rightarrow> insertActions e (i + 1) as w')"

definition gameOverAction :: "env \<Rightarrow> Game \<Rightarrow> GameAction option" where
  "gameOverAction e g =
     (if EndCondition g = EndConditionTimeout e then
        Some \<lparr>GameAction_Type = ActionTypeGameOver e, GameAction_Target = EndPlayer g,
              GameAction_Value = EndConditionTimeout e\<rparr>
      else if EndCondition g = EndConditionTerminated e then
        Some \<lparr>GameAction_Type = ActionTypeGameOver e, GameAction_Target = EndPlayer g,
              GameAction_Value = EndConditionTerminated e\<rparr>
      else if EndCondition g = EndConditionIdleTimeout e then
        Some \<lparr>GameAction_Type = ActionTypeGameOver e, GameAction_Target = 0,
              GameAction_Value = EndConditionIdleTimeout e\<rparr>
      else None)"

definition insertGameOver :: "env \<Rightarrow> stage" where
  "insertGameOver e w =
     (case gameOverAction e (game w) of
        None \<Rightarrow> (w, Return None)
      | Some a \<Rightarrow>
         (let i = int (length (Actions2 (game w)));
              w' = call (GameActions_Insert (Game_ID (game w)) i a) w in
          case models_GameActions_Insert e (trace w) (Game_ID (game w)) i a of
            Some err \<Rightarrow> (w', Return (Some err))
          | None \<Rightarrow> (w', Return None)))"

definition insertAllActions :: "env \<Rightarrow> stage" where
  \<comment> \<open>the rows of the actions, then the row of the game-over action\<close>
  "insertAllActions e w = andThen (insertActions e 0 (Actions2 (game w)) w) (insertGameOver e)"

definition insertChat :: "world \<Rightarrow> world" where
  "insertChat w =
     foldl (\<lambda>w' chatMsg. call (ChatLog_Insert (UserID chatMsg) (Msg chatMsg)
                                 (''table'' @ Itoa (Table_ID (table w)))) w')
       w (Chat (table w))"

definition insertTags :: "world \<Rightarrow> world" where
  "insertTags w = foldl (\<lambda>w' tag. call (GameTags_Insert (Game_ID (game w)) tag) w') w (Tags (game w))"

definition modifier :: "Options \<Rightarrow> int" where
  "modifier opts = (if DeckPlays opts then 1 else 0) + (if EmptyClues opts then 2 else 0)"

definition userBestScore :: "Game \<Rightarrow> BestScore \<Rightarrow> BestScore" where
  "userBestScore g bestScore =
     (if Score g > BestScore_Score bestScore \<or>
         (Score g = BestScore_Score bestScore \<and> modifier (Game_Options g) < BestScore_Modifier bestScore)
      then bestScore\<lparr>BestScore_Score := Score g, BestScore_Modifier := modifier (Game_Options g)\<rparr>
      else bestScore)"

fun updateUserStats :: "env \<Rightarrow> VariantInfo \<Rightarrow> Player list \<Rightarrow> stage" where
  "updateUserStats e v [] w = (w, Return None)"
| "updateUserStats e v (p # ps) w =
     (let w1 = call (UserStats_Get (Player_ID p) (Variant_ID v)) w in
      case models_UserStats_Get e (trace w) (Player_ID p) (Variant_ID v) of
        Inl err \<Rightarrow> updateUserStats e v ps w1
      | Inr stats \<Rightarrow>
         (let i = int (length (Game_Players (game w))) - 2 in
          case index (UserStats_BestScores stats) i of
            None \<Rightarrow> (w1, Panic IndexOutOfRange)
          | Some bestScore \<Rightarrow>
             updateUserStats e v ps
               (call (UserStats_Update (Player_ID p) (Variant_ID v)
                        (stats\<lparr>UserStats_BestScores :=
                           (UserStats_BestScores stats)[nat i := userBestScore (game w) bestScore]\<rparr>))
                  w1)))"

definition variantBestScore :: "Game \<Rightarrow> BestScore \<Rightarrow> BestScore" where
  "variantBestScore g bestScore =
     (if Score g > BestScore_Score bestScore then bestScore\<lparr>BestScore_Score := Score g\<rparr>
      else bestScore)"

definition variantStats :: "Game \<Rightarrow> VariantStatsRow \<Rightarrow> VariantStatsRow outcome" where
  "variantStats g stats =
     (if \<not> DeckPlays (Game_Options g) \<and> \<not> EmptyClues (Game_Options g) then
        (let i = int (length (Game_Players g)) - 2 in
         case index (VariantStats_BestScores stats) i of
           None \<Rightarrow> Panic IndexOutOfRange
         | Some bestScore \<Rightarrow>
            Return (stats\<lparr>VariantStats_BestScores :=
                      (VariantStats_BestScores stats)[nat i := variantBestScore g bestScore]\<rparr>))
      else Return stats)"

definition updateVariantStats :: "env \<Rightarrow> VariantInfo \<Rightarrow> stage" where
  "updateVariantStats e v w =
     (let w1 = call (VariantStats_Get (Variant_ID v)) w in
      case models_VariantStats_Get e (trace w) (Variant_ID v) of
        Inl err \<Rightarrow> (w1, Return (Some err))
      | Inr stats \<Rightarrow>
         (case variantStats (game w) stats of
            Panic x \<Rightarrow> (w1, Panic x)
          | Return stats' \<Rightarrow>
             (call (VariantStats_Update (Variant_ID v) (MaxScore v) stats') w1,
              Return (models_VariantStats_Update e (trace w1) (Variant_ID v) (MaxScore v) stats'))))"

text \<open>
  \<^verbatim>\<open>variants[g.Options.Variant]\<close> is read first when the row is built; a name the table
  does not have gives a nil pointer, and the read of its \<^verbatim>\<open>ID\<close> panics. The table does
  not change, so the later reads give the same entry.
\<close>

definition WriteDatabase :: "env \<Rightarrow> world \<Rightarrow> world \<times> error option outcome" where
  "WriteDatabase e w =
     (case variants e (Variant (Game_Options (game w))) of
        None \<Rightarrow> (w, Panic NilPointerDereference)
      | Some v \<Rightarrow>
         andThen (andThen (andThen (andThen (andThen
           (insertGame e v w)
           (\<lambda>w. insertParticipants e (Game_Players (game w)) w))
           (\<lambda>w. insertAllNotes (Game_Players (game w)) w))
           (insertAllActions e))
           (\<lambda>w. updateUserStats e v (Table_Players (table w)) (insertTags (insertChat w))))
           (updateVariantStats e v))"

subsection \<open>ConvertToSharedReplay\<close>

definition sessionGone :: "Session option \<Rightarrow> bool" where
  \<comment> \<open>\<^verbatim>\<open>p.Session == nil || p.Session.IsClosed()\<close>\<close>
  "sessionGone s = (case s of None \<Rightarrow> True | Some c \<Rightarrow> IsClosed c)"

fun convertPlayers :: "env \<Rightarrow> Player list \<Rightarrow> bool \<Rightarrow> world \<Rightarrow> world \<times> bool outcome" where
  "convertPlayers e [] ownerOffline w = (w, Return ownerOffline)"
| "convertPlayers e (p # ps) ownerOffline w =
     (if \<not> Present p then
        convertPlayers e ps
          (if Player_ID p = Owner (table w) \<and> sessionGone (Player_Session p) then True
           else ownerOffline) w
      else if EndCondition (game w) = EndConditionIdleTimeout e then
        convertPlayers e ps ownerOffline w
      else
        (case variants e (Variant (Table_Options (table w))) of
           None \<Rightarrow> (w, Panic NilPointerDereference)
         | Some v \<Rightarrow>
            convertPlayers e ps ownerOffline
              (w\<lparr>table := (table w)\<lparr>Spectators := Spectators (table w) @
                   [\<lparr>Spectator_ID = Player_ID p, Spectator_Name = Player_Name p,
                     Spectator_Session = Player_Session p,
                     Spectator_Notes =
                       replicate (length (Deck (game w)) + length (Suits v)) []\<rparr>]\<rparr>\<rparr>)))"

definition firstPresent :: "Player list \<Rightarrow> int" where
  \<comment> \<open>\<^verbatim>\<open>t.Owner = -1\<close>, then the loop that stops at the first present player\<close>
  "firstPresent ps = (case find Present ps of None \<Rightarrow> - 1 | Some p \<Rightarrow> Player_ID p)"

definition electLeader :: "world \<Rightarrow> world \<times> unit outcome" where
  "electLeader w =
     (let owner = firstPresent (Table_Players (table w)) in
      if owner \<noteq> - 1 then
        (case Spectators (table w) of
           [] \<Rightarrow> (w\<lparr>table := (table w)\<lparr>Owner := owner\<rparr>\<rparr>, Panic IndexOutOfRange)
         | sp # _ \<Rightarrow> (w\<lparr>table := (table w)\<lparr>Owner := Spectator_ID sp\<rparr>\<rparr>, Return ()))
      else (w\<lparr>table := (table w)\<lparr>Owner := owner\<rparr>\<rparr>, Return ()))"

definition notifySpectator :: "env \<Rightarrow> world \<Rightarrow> Spectator \<Rightarrow> world" where
  "notifySpectator e w sp =
     (let s = Spectator_Session sp;
          w1 = (if s \<noteq> None
                then call (NotifyAllUser s) (call (Session_Set s ''status'' (StatusSharedReplay e)) w)
                else w)
      in call (Emit s ''databaseID'' (IDMessage (Table_ID (table w)) (Game_ID (game w))))
           (call (NotifyNoteList s) (call (NotifyReplayLeader s False) w1)))"

definition ConvertToSharedReplay :: "env \<Rightarrow> world \<Rightarrow> world \<times> unit outcome" where
  "ConvertToSharedReplay e w0 =
     (let w1 = w0\<lparr>table := (table w0)\<lparr>Table_Replay := True,
                     Table_Name := ''Shared replay for game #'' @ Itoa (Game_ID (game w0)),
                     Progress := 100\<rparr>,
                  game := (game w0)\<lparr>EndTurn := Turn (game w0),
                     Turn := wrap_int (Turn (game w0) - 1)\<rparr>\<rparr>
      in case convertPlayers e (Table_Players (table w1)) False w1 of
           (w2, Panic x) \<Rightarrow> (w2, Panic x)
         | (w2, Return ownerOffline) \<Rightarrow>
            if length (Spectators (table w2)) = 0 then
              (w2\<lparr>tables := tables w2 - {Table_ID (table w2)}\<rparr>, Return ())
            else
              (case (if ownerOffline then electLeader w2 else (w2, Return ())) of
                 (w3, Panic x) \<Rightarrow> (w3, Panic x)
               | (w3, Return _) \<Rightarrow>
                  (let w4 = call NotifyConnected
                         (w3\<lparr>table := (table w3)\<lparr>Table_Players :=
                                map (\<lambda>p. p\<lparr>Present := True\<rparr>) (Table_Players (table w3))\<rparr>\<rparr>);
                       w5 = foldl (notifySpectator e) w4 (Spectators (table w4))
                   in (call NotifySpectators (call (NotifyAllTable (Table_ID (table w5))) w5),
                       Return ()))))"

subsection \<open>End\<close>

definition deckOrder :: "Game \<Rightarrow> Action" where
  "deckOrder g = ActionDeckOrder ''deckOrder''
     (map (\<lambda>c. \<lparr>SimpleCard_Suit = Card_Suit c, SimpleCard_Rank = Card_Rank c\<rparr>) (Deck g))"

definition timeText :: "env \<Rightarrow> Game \<Rightarrow> GamePlayer \<Rightarrow> string" where
  "timeText e g p =
     (if Timed (Game_Options g)
      then (GamePlayer_Name p @ '' '') @ ''had '' @ durationToString e (Time p) @ '' left''
      else (GamePlayer_Name p @ '' '') @ ''took: '' @ durationToString e (Time p * - 1))"

definition sendTimes :: "env \<Rightarrow> world \<Rightarrow> world" where
  "sendTimes e w =
     foldl (\<lambda>w' p. appendAction (ActionText ''text'' (timeText e (game w') p)) w')
       w (Game_Players (game w))"

definition sendTotalTime :: "env \<Rightarrow> world \<Rightarrow> world" where
  "sendTotalTime e w =
     appendAction (ActionText ''text'' (''The total game duration was: '' @
        durationToString e (time_Sub e (DatetimeFinished (game w)) (DatetimeStarted (game w))))) w"

fun revealHands :: "GamePlayer list \<Rightarrow> world \<Rightarrow> world \<times> unit outcome" where
  "revealHands [] w = (w, Return ())"
| "revealHands (gp # gps) w =
     (case index (Table_Players (table w)) (GamePlayer_Index gp) of
        None \<Rightarrow> (w, Panic IndexOutOfRange)
      | Some p \<Rightarrow>
         revealHands gps
           (if Present p then
              foldl (\<lambda>w' c. call (Emit (Player_Session p) ''reveal''
                                    (RevealMessage (Card_Suit c) (Card_Rank c) (Card_Order c))) w')
                w (Hand gp)
            else w))"

definition resetPlayer :: "env \<Rightarrow> world \<Rightarrow> Player \<Rightarrow> world" where
  "resetPlayer e w p =
     (if Player_Session p \<noteq> None
      then call (NotifyAllUser (Player_Session p))
             (call (Session_Set (Player_Session p) ''status'' (StatusLobby e)) w)
      else w)"

definition resetStatus :: "env \<Rightarrow> world \<Rightarrow> world" where
  "resetStatus e w = foldl (resetPlayer e) w (Table_Players (table w))"

definition gameHistory :: "world \<Rightarrow> int \<Rightarrow> GameHistory" where
  "gameHistory w numSimilar = (let t = table w; g = game w in
     \<lparr>History_ID = Game_ID g,
      History_NumPlayers = int (length (Game_Players g)),
      History_Variant = Variant (Game_Options g),
      History_Timed = Timed (Game_Options g),
      History_TimeBase = TimeBase (Game_Options g),
      History_TimePerTurn = TimePerTurn (Game_Options g),
      History_Speedrun = Speedrun (Game_Options g),
      History_CardCycle = CardCycle (Game_Options g),
      History_DeckPlays = DeckPlays (Game_Options g),
      History_EmptyClues = EmptyClues (Game_Options g),
      History_CharacterAssignments = CharacterAssignments (Game_Options g),
      History_Seed = Seed g,
      History_Score = Score g,
      History_NumTurns = Turn g,
      History_EndCondition = EndCondition g,
      History_DatetimeStarted = DatetimeStarted g,
      History_DatetimeFinished = DatetimeFinished g,
      History_NumSimilar = numSimilar,
      History_PlayerNames = Join (sort (map Player_Name (Table_Players t))) '', '',
      History_IncrementNumGames = True\<rparr>)"

definition sendHistory :: "world \<Rightarrow> int \<Rightarrow> world" where
  "sendHistory w numSimilar =
     foldl (\<lambda>w' p. call (Emit (Player_Session p) ''gameHistory''
                           (GameHistoryList [gameHistory w numSimilar])) w')
       w (Table_Players (table w))"

definition finish :: "env \<Rightarrow> world \<Rightarrow> world" where
  \<comment> \<open>the finish time, the forced score, the deck-order action\<close>
  "finish e w =
     (let g = (game w)\<lparr>DatetimeFinished := time_Now e\<rparr>;
          g' = (if EndCondition g > EndConditionNormal e then g\<lparr>Score := 0\<rparr> else g)
      in appendAction (deckOrder g') (w\<lparr>game := g'\<rparr>))"

definition announce :: "env \<Rightarrow> world \<Rightarrow> world" where
  \<comment> \<open>the times, the extra turn, the game-over signal\<close>
  "announce e w =
     (let w1 = sendTotalTime e (sendTimes e w);
          w2 = call NotifyTurn (w1\<lparr>game := (game w1)\<lparr>Turn := wrap_int (Turn (game w1) + 1)\<rparr>\<rparr>)
      in call NotifyGameOver w2)"

definition notifyEnd :: "env \<Rightarrow> world \<Rightarrow> world \<times> unit outcome" where
  \<comment> \<open>everything the clients are told between the deck-order action and the write\<close>
  "notifyEnd e w =
     (case revealHands (Game_Players (game w)) (announce e w) of
        (w', Panic x) \<Rightarrow> (w', Panic x)
      | (w', Return _) \<Rightarrow>
         (resetStatus e (call (NotifyAllTableGone (Table_ID (table w'))) w'), Return ()))"

definition End :: "env \<Rightarrow> world \<Rightarrow> world \<times> unit outcome" where
  "End e w0 =
     (let w1 = finish e w0 in
      if Replay (Game_Options (game w1)) then (w1, Return ())
      else
        (case notifyEnd e w1 of
           (w2, Panic x) \<Rightarrow> (w2, Panic x)
         | (w2, Return _) \<Rightarrow>
            (case WriteDatabase e w2 of
               (w3, Panic x) \<Rightarrow> (w3, Panic x)
             | (w3, Return (Some err)) \<Rightarrow> (w3, Return ())
             | (w3, Return None) \<Rightarrow>
                (let w4 = call (Games_GetNumSimilar (Seed (game w3))) w3 in
                 case models_Games_GetNumSimilar e (trace w3) (Seed (game w3)) of
                   Inl err \<Rightarrow> (w4, Return ())
                 | Inr numSimilar \<Rightarrow> ConvertToSharedReplay e (sendHistory w4 numSimilar)))))"

subsection \<open>Predicates on traces\<close>

fun storage :: "int \<Rightarrow> event \<Rightarrow> bool" where
  "storage s (Games_Insert row) = (Row_Score row = s)"
| "storage s (GameParticipants_Insert _ _ _ _ _) = True"
| "storage s (GameParticipantNotes_Insert _ _ _ _) = True"
| "storage s (GameActions_Insert _ _ _) = True"
| "storage s (ChatLog_Insert _ _ _) = True"
| "storage s (GameTags_Insert _ _) = True"
| "storage s (UserStats_Get _ _) = True"
| "storage s (UserStats_Update _ _ _) = True"
| "storage s (VariantStats_Get _) = True"
| "storage s (VariantStats_Update _ _ _) = True"
| "storage s (Games_GetNumSimilar _) = True"
| "storage s _ = False"

definition newEvents :: "world \<Rightarrow> world \<Rightarrow> event list" where
  \<comment> \<open>the calls made between an earlier world and a later one\<close>
  "newEvents w w' = drop (length (trace w)) (trace w')"

definition wrote :: "int \<Rightarrow> world \<Rightarrow> world \<Rightarrow> bool" where
  \<comment> \<open>between \<open>w\<close> and \<open>w'\<close> nothing happened but calls to the storage gateway (a game row
      carrying the score \<open>s\<close>) and the assignment of the game's ID\<close>
  "wrote s w w' =
     (table w' = table w \<and> tables w' = tables w \<and>
      game w' = (game w)\<lparr>Game_ID := Game_ID (game w')\<rparr> \<and>
      take (length (trace w)) (trace w') = trace w \<and>
      list_all (storage s) (newEvents w w'))"

fun carries :: "int \<Rightarrow> event \<Rightarrow> bool" where
  \<comment> \<open>a call that hands over the score of the game hands over \<open>s\<close>\<close>
  "carries s (Games_Insert row) = (Row_Score row = s)"
| "carries s (Emit _ _ (GameHistoryList hs)) = list_all (\<lambda>h. History_Score h = s) hs"
| "carries s _ = True"

definition told :: "int \<Rightarrow> world \<Rightarrow> world \<Rightarrow> bool" where
  \<comment> \<open>the trace of \<open>w'\<close> is the trace of \<open>w\<close> and then calls that carry \<open>s\<close>\<close>
  "told s w w' =
     (take (length (trace w)) (trace w') = trace w \<and> list_all (carries s) (newEvents w w'))"

definition actionRows :: "int \<Rightarrow> int \<Rightarrow> GameAction list \<Rightarrow> event list" where
  \<comment> \<open>one row for each action, at the index of its position counted from \<open>i\<close>\<close>
  "actionRows gid i as = map (\<lambda>k. GameActions_Insert gid (i + int k) (as ! k)) [0..<length as]"

text \<open>
  The rows of the actions as the specification words them, to compare with what
  \<open>insertAllActions\<close> sends: every action of the log at the index of its position, then,
  exactly when the end condition is Timeout, Terminated or IdleTimeout, a game-over action
  at the next free index.
\<close>

definition expectedRows :: "env \<Rightarrow> Game \<Rightarrow> event list" where
  "expectedRows e g =
     map (\<lambda>k. GameActions_Insert (Game_ID g) (int k) (Actions2 g ! k)) [0..<length (Actions2 g)] @
     (if EndCondition g = EndConditionTimeout e \<or> EndCondition g = EndConditionTerminated e \<or>
         EndCondition g = EndConditionIdleTimeout e
      then [GameActions_Insert (Game_ID g) (int (length (Actions2 g)))
              \<lparr>GameAction_Type = ActionTypeGameOver e,
               GameAction_Target =
                 (if EndCondition g = EndConditionTimeout e \<or> EndCondition g = EndConditionTerminated e
                  then EndPlayer g else 0),
               GameAction_Value = EndCondition g\<rparr>]
      else [])"

text \<open>
  Modelled from the spec: the methods of a session that push a message to one connection
  (\<^verbatim>\<open>Emit\<close>, \<^verbatim>\<open>NotifyReplayLeader\<close>, \<^verbatim>\<open>NotifyNoteList\<close>) are not among the sources. The
  specification calls each of them a best-effort push to live connections, where delivery
  to an offline user is simply skipped and never queued, and the handle of an offline user
  is null. So a method called on a handle sends its message to that connection; called on
  a nil handle it sends nothing and returns. \<open>pushed\<close> gives what a call sends, as the
  method and the connection reached.
\<close>

fun pushed :: "event \<Rightarrow> (string \<times> Session) list" where
  "pushed (Emit (Some s) name _) = [(''Emit '' @ name, s)]"
| "pushed (NotifyReplayLeader (Some s) _) = [(''NotifyReplayLeader'', s)]"
| "pushed (NotifyNoteList (Some s)) = [(''NotifyNoteList'', s)]"
| "pushed _ = []"

definition deliveries :: "event list \<Rightarrow> (string \<times> Session) list" where
  "deliveries evs = concat (map pushed evs)"

fun handled :: "event \<Rightarrow> bool" where
  \<comment> \<open>not one of the two calls that work on the handle itself, made on a nil handle\<close>
  "handled (Session_Set None _ _) = False"
| "handled (NotifyAllUser None) = False"
| "handled _ = True"

definition only :: "(event \<Rightarrow> bool) \<Rightarrow> world \<Rightarrow> world \<Rightarrow> bool" where
  \<comment> \<open>the trace of \<open>w'\<close> is the trace of \<open>w\<close> and then calls that satisfy \<open>P\<close>\<close>
  "only P w w' = (take (length (trace w)) (trace w') = trace w \<and> list_all P (newEvents w w'))"

subsection \<open>Example inputs\<close>

text \<open>
  A gateway that accepts every call, a table of two players with a game of theirs, and
  variations of both. The numbers chosen for the constants are examples.
\<close>

definition noBest :: "BestScore list" where
  "noBest = replicate 5 \<lparr>BestScore_Score = 0, BestScore_Modifier = 0\<rparr>"

definition env1 :: env where
  "env1 =
     \<lparr>EndConditionNormal = 1, EndConditionTimeout = 3, EndConditionTerminated = 4,
      EndConditionIdleTimeout = 6, ActionTypeGameOver = 5, StatusLobby = 0,
      StatusSharedReplay = 4,
      variants = [''No Variant'' \<mapsto>
        \<lparr>Variant_ID = 0, MaxScore = 25, Suits = [''Blue'', ''Green'', ''Yellow'', ''Red'', ''Purple'']\<rparr>],
      characters = Map.empty,
      durationToString = (\<lambda>d. Itoa (sint d)),
      time_Now = 2000,
      time_Sub = (\<lambda>a b. word_of_int (a - b)),
      models_Games_Insert = (\<lambda>_ _. Inr 7),
      models_GameParticipants_Insert = (\<lambda>_ _ _ _ _ _. None),
      models_GameActions_Insert = (\<lambda>_ _ _ _. None),
      models_UserStats_Get = (\<lambda>_ _ _. Inr \<lparr>UserStats_BestScores = noBest\<rparr>),
      models_VariantStats_Get = (\<lambda>_ _. Inr \<lparr>VariantStats_BestScores = noBest\<rparr>),
      models_VariantStats_Update = (\<lambda>_ _ _ _. None),
      models_Games_GetNumSimilar = (\<lambda>_ _. Inr 1)\<rparr>"

definition options1 :: Options where
  "options1 =
     \<lparr>Variant = ''No Variant'', Timed = False, TimeBase = 0, TimePerTurn = 0, Speedrun = False,
      CardCycle = False, DeckPlays = False, EmptyClues = False, CharacterAssignments = False,
      Replay = False\<rparr>"

definition alice :: Player where
  "alice = \<lparr>Player_ID = 1, Player_Name = ''alice'',
            Player_Session = Some \<lparr>Session_ID = 1, IsClosed = False\<rparr>, Present = True\<rparr>"

definition bob :: Player where
  "bob = \<lparr>Player_ID = 2, Player_Name = ''bob'',
          Player_Session = Some \<lparr>Session_ID = 2, IsClosed = False\<rparr>, Present = True\<rparr>"

definition table1 :: Table where
  "table1 =
     \<lparr>Table_ID = 1, Table_Name = ''a game'', Owner = 1, Table_Players = [alice, bob],
      Spectators = [], Table_Options = options1, Table_Replay = False, Progress = 50,
      Chat = []\<rparr>"

definition game1 :: Game where
  "game1 =
     \<lparr>Game_ID = 0, Game_Options = options1,
      Game_Players =
        [\<lparr>GamePlayer_Name = ''alice'', GamePlayer_Index = 0,
          Hand = [\<lparr>Card_Suit = 1, Card_Rank = 2, Card_Order = 0\<rparr>], GamePlayer_Notes = [],
          Character = [], CharacterMetadata = 0, Time = - 30\<rparr>,
         \<lparr>GamePlayer_Name = ''bob'', GamePlayer_Index = 1,
          Hand = [], GamePlayer_Notes = [[], ''note''],
          Character = [], CharacterMetadata = 0, Time = - 40\<rparr>],
      Seed = ''p2v0s1'',
      Deck = [\<lparr>Card_Suit = 1, Card_Rank = 2, Card_Order = 0\<rparr>,
              \<lparr>Card_Suit = 3, Card_Rank = 4, Card_Order = 1\<rparr>],
      Score = 5, Turn = 10, EndTurn = 0, EndCondition = 1, EndPlayer = 0,
      Actions = [ActionOther 0],
      Actions2 = [\<lparr>GameAction_Type = 0, GameAction_Target = 1, GameAction_Value = 2\<rparr>,
                  \<lparr>GameAction_Type = 1, GameAction_Target = 0, GameAction_Value = 3\<rparr>],
      Tags = [], DatetimeStarted = 1000, DatetimeFinished = 0\<rparr>"

definition world1 :: world where
  "world1 = \<lparr>table = table1, game = game1, tables = {1}, trace = []\<rparr>"

definition replayWorld :: world where
  "replayWorld = world1\<lparr>game := game1\<lparr>Game_Options := options1\<lparr>Replay := True\<rparr>\<rparr>\<rparr>"

definition timedWorld :: world where
  "timedWorld = world1\<lparr>game := game1\<lparr>Game_Options := options1\<lparr>Timed := True\<rparr>\<rparr>\<rparr>"

definition timeoutWorld :: world where
  "timeoutWorld = world1\<lparr>game := game1\<lparr>EndCondition := 3, EndPlayer := 1\<rparr>\<rparr>"

definition variant1 :: VariantInfo where
  "variant1 = \<lparr>Variant_ID = 0, MaxScore = 25,
               Suits = [''Blue'', ''Green'', ''Yellow'', ''Red'', ''Purple'']\<rparr>"

definition stored :: "int \<Rightarrow> int \<Rightarrow> BestScore list" where
  "stored s m = replicate 5 \<lparr>BestScore_Score = s, BestScore_Modifier = m\<rparr>"

definition envStored :: "int \<Rightarrow> int \<Rightarrow> env" where
  \<comment> \<open>the gateway holds the score \<open>s\<close> with the modifier \<open>m\<close> as the best of every bucket\<close>
  "envStored s m = env1
     \<lparr>models_UserStats_Get := (\<lambda>_ _ _. Inr \<lparr>UserStats_BestScores = stored s m\<rparr>),
      models_VariantStats_Get := (\<lambda>_ _. Inr \<lparr>VariantStats_BestScores = stored s m\<rparr>)\<rparr>"

definition deckPlaysWorld :: world where
  "deckPlaysWorld = world1\<lparr>game := game1\<lparr>Game_Options := options1\<lparr>DeckPlays := True\<rparr>\<rparr>\<rparr>"

definition idleWorld :: world where
  "idleWorld = world1\<lparr>game := game1\<lparr>EndCondition := 6\<rparr>\<rparr>"

definition carol :: Spectator where
  "carol = \<lparr>Spectator_ID = 3, Spectator_Name = ''carol'',
            Spectator_Session = Some \<lparr>Session_ID = 3, IsClosed = False\<rparr>, Spectator_Notes = []\<rparr>"

definition awayWorld :: world where
  \<comment> \<open>the owner has left and her connection is closed, the other player is in the lobby,
      a spectator is watching\<close>
  "awayWorld = world1\<lparr>table := table1
     \<lparr>Table_Players :=
        [alice\<lparr>Present := False, Player_Session := Some \<lparr>Session_ID = 1, IsClosed = True\<rparr>\<rparr>,
         bob\<lparr>Present := False\<rparr>],
      Spectators := [carol]\<rparr>\<rparr>"

definition watchedWorld :: world where
  \<comment> \<open>the owner has left and her connection is closed, the other player is present,
      a spectator is watching\<close>
  "watchedWorld = world1\<lparr>table := table1
     \<lparr>Table_Players :=
        [alice\<lparr>Present := False, Player_Session := Some \<lparr>Session_ID = 1, IsClosed = True\<rparr>\<rparr>, bob],
      Spectators := [carol]\<rparr>\<rparr>"

definition envWriteFails :: env where
  \<comment> \<open>the gateway refuses the game row\<close>
  "envWriteFails = env1\<lparr>models_Games_Insert := (\<lambda>_ _. Inl (GatewayError 1))\<rparr>"

definition envCountFails :: env where
  \<comment> \<open>the gateway fails to count the games of the seed\<close>
  "envCountFails = env1\<lparr>models_Games_GetNumSimilar := (\<lambda>_ _. Inl (GatewayError 2))\<rparr>"

definition dave :: Spectator where
  \<comment> \<open>a spectator whose connection handle is nil\<close>
  "dave = \<lparr>Spectator_ID = 4, Spectator_Name = ''dave'', Spectator_Session = None,
           Spectator_Notes = []\<rparr>"

definition offlineWorld :: world where
  \<comment> \<open>the second player is offline, his handle is nil; so is the handle of a spectator\<close>
  "offlineWorld = world1\<lparr>table := table1
     \<lparr>Table_Players := [alice, bob\<lparr>Present := False, Player_Session := None\<rparr>],
      Spectators := [dave]\<rparr>\<rparr>"

definition bothWorld :: world where
  "bothWorld = world1\<lparr>game := game1\<lparr>Game_Options :=
     options1\<lparr>DeckPlays := True, EmptyClues := True\<rparr>\<rparr>\<rparr>"

definition envGetFails :: env where
  \<comment> \<open>the gateway fails to return the stats of a user\<close>
  "envGetFails = env1\<lparr>models_UserStats_Get := (\<lambda>_ _ _. Inl (GatewayError 3))\<rparr>"

definition beforeWrite :: "env \<Rightarrow> world" where
  \<comment> \<open>\<open>world1\<close> at the moment \<^verbatim>\<open>End\<close> calls \<^verbatim>\<open>WriteDatabase\<close>\<close>
  "beforeWrite e = fst (notifyEnd e (finish e world1))"

lemmas example_defs =
  env1_def world1_def table1_def game1_def options1_def alice_def bob_def noBest_def

lemmas stats_defs =
  envStored_def example_defs variant1_def index_def userBestScore_def modifier_def call_def
  stored_def

lemmas conv_defs =
  ConvertToSharedReplay_def Let_def sessionGone_def electLeader_def firstPresent_def
  notifySpectator_def call_def Itoa_def digits.simps

lemmas end_defs =
  End_def finish_def Let_def deckOrder_def appendAction_def call_def notifyEnd_def
  announce_def sendTimes_def sendTotalTime_def index_def resetStatus_def resetPlayer_def
  WriteDatabase_def andThen_def insertGame_def gameRow_def characterID_def
  insertAllActions_def insertGameOver_def gameOverAction_def insertChat_def insertTags_def
  updateVariantStats_def variantStats_def variantBestScore_def userBestScore_def
  modifier_def sendHistory_def gameHistory_def Join_def timeText_def

section \<open>Frames and traces\<close>

lemma call_simps [simp]:
  "trace (call ev w) = trace w @ [ev]" "game (call ev w) = game w"
  "table (call ev w) = table w" "tables (call ev w) = tables w"
  by (simp_all add: call_def)

lemma appendAction_simps [simp]:
  "trace (appendAction a w) = trace w @ [NotifyGameAction]"
  "game (appendAction a w) = (game w)\<lparr>Actions := Actions (game w) @ [a]\<rparr>"
  "table (appendAction a w) = table w" "tables (appendAction a w) = tables w"
  by (simp_all add: appendAction_def)

lemma wrote_iff:
  "wrote s w w' \<longleftrightarrow>
     table w' = table w \<and> tables w' = tables w \<and> (\<exists>i. game w' = (game w)\<lparr>Game_ID := i\<rparr>) \<and>
     (\<exists>evs. trace w' = trace w @ evs \<and> list_all (storage s) evs)"
proof -
  have a: "(game w' = (game w)\<lparr>Game_ID := Game_ID (game w')\<rparr>) = (\<exists>i. game w' = (game w)\<lparr>Game_ID := i\<rparr>)"
  proof
    assume "\<exists>i. game w' = (game w)\<lparr>Game_ID := i\<rparr>"
    then obtain i where i: "game w' = (game w)\<lparr>Game_ID := i\<rparr>" ..
    then have "Game_ID (game w') = i" by simp
    with i show "game w' = (game w)\<lparr>Game_ID := Game_ID (game w')\<rparr>" by simp
  qed blast
  have b: "(take (length (trace w)) (trace w') = trace w \<and> list_all (storage s) (newEvents w w'))
        = (\<exists>evs. trace w' = trace w @ evs \<and> list_all (storage s) evs)"
  proof
    assume h: "take (length (trace w)) (trace w') = trace w \<and> list_all (storage s) (newEvents w w')"
    then have "trace w' = trace w @ newEvents w w'"
      unfolding newEvents_def by (metis append_take_drop_id)
    with h show "\<exists>evs. trace w' = trace w @ evs \<and> list_all (storage s) evs" by blast
  qed (auto simp: newEvents_def)
  show ?thesis unfolding wrote_def using a b by blast
qed

lemma wrote_refl: "wrote s w w"
  unfolding wrote_iff by (auto intro: exI [of _ "Game_ID (game w)"])

lemma wrote_trans: "wrote s w w' \<Longrightarrow> wrote s w' w'' \<Longrightarrow> wrote s w w''"
  unfolding wrote_iff by (elim conjE exE) (simp, blast)

lemma wrote_call: "storage s ev \<Longrightarrow> wrote s w (call ev w)"
  unfolding wrote_iff by (auto intro: exI [of _ "Game_ID (game w)"])

lemma wrote_call_after: "wrote s w w' \<Longrightarrow> storage s ev \<Longrightarrow> wrote s w (call ev w')"
  by (blast intro: wrote_trans wrote_call)

lemma wrote_Score: "wrote s w w' \<Longrightarrow> Score (game w') = Score (game w)"
  unfolding wrote_iff by (elim conjE exE) simp

lemma foldl_call_wrote:
  "(\<And>x. storage s (f x)) \<Longrightarrow> wrote s w (foldl (\<lambda>w' x. call (f x) w') w xs)"
proof (induction xs arbitrary: w)
  case Nil
  show ?case by (simp add: wrote_refl)
next
  case (Cons x xs)
  have "wrote s w (call (f x) w)" by (rule wrote_call) (rule Cons.prems)
  moreover have "wrote s (call (f x) w) (foldl (\<lambda>w' x. call (f x) w') (call (f x) w) xs)"
    by (rule Cons.IH) (rule Cons.prems)
  ultimately show ?case by (simp add: wrote_trans)
qed

lemma andThen_wrote:
  assumes "wrote s w (fst r)" and "\<And>w'. wrote s w' (fst (k w'))"
  shows "wrote s w (fst (andThen r k))"
proof (cases r)
  case (Pair w' out)
  show ?thesis
  proof (cases "out = Return None")
    case True
    with Pair assms(2) [of w'] assms(1) show ?thesis
      by (auto simp: andThen_def intro: wrote_trans)
  next
    case False
    with Pair assms(1) show ?thesis
      by (auto simp: andThen_def split: outcome.splits option.splits)
  qed
qed

lemma insertGame_wrote:
  assumes "Score (game w) = s"
  shows "wrote s w (fst (insertGame e v w))"
proof -
  have row: "storage s (Games_Insert (gameRow v w))"
    using assms by (simp add: gameRow_def Let_def)
  show ?thesis
  proof (cases "models_Games_Insert e (trace w) (gameRow v w)")
    case (Inl err)
    then show ?thesis by (simp add: insertGame_def Let_def wrote_call [OF row])
  next
    case (Inr i)
    have "wrote s w (call (Games_Insert (gameRow v w)) w)" by (rule wrote_call [OF row])
    then show ?thesis using Inr unfolding wrote_iff
      by (auto simp: insertGame_def Let_def)
  qed
qed

lemma insertParticipants_wrote: "wrote s w (fst (insertParticipants e gps w))"
proof (induction gps arbitrary: w)
  case Nil
  show ?case by (simp add: wrote_refl)
next
  case (Cons gp gps)
  show ?case
    by (auto simp: Let_def wrote_refl wrote_call split: option.splits sum.splits
             intro: wrote_trans [OF wrote_call Cons.IH])
qed

lemma insertNotes_wrote: "wrote s w (insertNotes pid gid j ns w)"
proof (induction ns arbitrary: w j)
  case Nil
  show ?case by (simp add: wrote_refl)
next
  case (Cons n ns)
  show ?case
    by (auto simp: Cons.IH intro: wrote_trans [OF wrote_call Cons.IH])
qed

lemma insertAllNotes_wrote: "wrote s w (fst (insertAllNotes gps w))"
proof (induction gps arbitrary: w)
  case Nil
  show ?case by (simp add: wrote_refl)
next
  case (Cons gp gps)
  show ?case
    by (auto simp: wrote_refl split: option.splits
             intro: wrote_trans [OF insertNotes_wrote Cons.IH])
qed

lemma insertActions_wrote: "wrote s w (fst (insertActions e i as w))"
proof (induction as arbitrary: w i)
  case Nil
  show ?case by (simp add: wrote_refl)
next
  case (Cons a as)
  show ?case
    by (auto simp: Let_def wrote_call split: option.splits
             intro: wrote_trans [OF wrote_call Cons.IH])
qed

lemma insertGameOver_wrote: "wrote s w (fst (insertGameOver e w))"
  by (auto simp: insertGameOver_def Let_def wrote_refl wrote_call split: option.splits)

lemma insertAllActions_wrote: "wrote s w (fst (insertAllActions e w))"
  unfolding insertAllActions_def
  by (rule andThen_wrote) (rule insertActions_wrote, rule insertGameOver_wrote)

lemma insertChat_wrote: "wrote s w (insertChat w)"
  unfolding insertChat_def by (rule foldl_call_wrote) simp

lemma insertTags_wrote: "wrote s w (insertTags w)"
  unfolding insertTags_def by (rule foldl_call_wrote) simp

lemma updateUserStats_wrote: "wrote s w (fst (updateUserStats e v ps w))"
proof (induction ps arbitrary: w)
  case Nil
  show ?case by (simp add: wrote_refl)
next
  case (Cons p ps)
  show ?case
    by (auto simp: Let_def wrote_call split: option.splits sum.splits
             intro: wrote_trans [OF wrote_call Cons.IH]
                    wrote_trans [OF wrote_call_after [OF wrote_call] Cons.IH])
qed

lemma updateVariantStats_wrote: "wrote s w (fst (updateVariantStats e v w))"
  by (auto simp: updateVariantStats_def Let_def wrote_call split: sum.splits outcome.splits
           intro: wrote_call_after)

lemma WriteDatabase_wrote: "wrote (Score (game w)) w (fst (WriteDatabase e w))"
proof (cases "variants e (Variant (Game_Options (game w)))")
  case None
  then show ?thesis by (simp add: WriteDatabase_def wrote_refl)
next
  case (Some v)
  have "wrote (Score (game w)) w' (fst (updateUserStats e v (Table_Players (table w')) (insertTags (insertChat w'))))" for w'
    by (blast intro: wrote_trans insertChat_wrote insertTags_wrote updateUserStats_wrote)
  with Some show ?thesis
    unfolding WriteDatabase_def
    by (simp add: andThen_wrote insertGame_wrote insertParticipants_wrote insertAllNotes_wrote
          insertAllActions_wrote updateVariantStats_wrote)
qed

lemma foldl_call:
  "foldl (\<lambda>w' x. call (f x) w') w xs = w\<lparr>trace := trace w @ map f xs\<rparr>"
  by (induction xs arbitrary: w) (simp_all add: call_def)

lemma revealHands_frame [simp]:
  "game (fst (revealHands gps w)) = game w"
  "table (fst (revealHands gps w)) = table w"
  "tables (fst (revealHands gps w)) = tables w"
  by (induction gps arbitrary: w; simp add: foldl_call split: option.splits)+

lemma resetPlayer_frame [simp]:
  "game (resetPlayer e w p) = game w"
  "table (resetPlayer e w p) = table w"
  "tables (resetPlayer e w p) = tables w"
  by (simp_all add: resetPlayer_def)

lemma foldl_resetPlayer_frame [simp]:
  "game (foldl (resetPlayer e) w ps) = game w"
  "table (foldl (resetPlayer e) w ps) = table w"
  "tables (foldl (resetPlayer e) w ps) = tables w"
  by (induction ps arbitrary: w; simp)+

lemma resetStatus_frame [simp]:
  "game (resetStatus e w) = game w"
  "table (resetStatus e w) = table w"
  "tables (resetStatus e w) = tables w"
  by (simp_all add: resetStatus_def)

lemma sendHistory_frame [simp]:
  "game (sendHistory w n) = game w"
  "table (sendHistory w n) = table w"
  "tables (sendHistory w n) = tables w"
  by (simp_all add: sendHistory_def foldl_call)

lemma timeText_Actions [simp]: "timeText e (g\<lparr>Actions := a\<rparr>) p = timeText e g p"
  by (simp add: timeText_def)

lemma sendTimes_eq:
  "sendTimes e w =
     w\<lparr>game := (game w)\<lparr>Actions := Actions (game w) @
                  map (\<lambda>p. ActionText ''text'' (timeText e (game w) p)) (Game_Players (game w))\<rparr>,
       trace := trace w @ replicate (length (Game_Players (game w))) NotifyGameAction\<rparr>"
proof -
  have "foldl (\<lambda>w' p. appendAction (ActionText ''text'' (timeText e (game w') p)) w') w ps =
     w\<lparr>game := (game w)\<lparr>Actions := Actions (game w) @
                  map (\<lambda>p. ActionText ''text'' (timeText e (game w) p)) ps\<rparr>,
       trace := trace w @ replicate (length ps) NotifyGameAction\<rparr>" for ps
    by (induction ps arbitrary: w)
       (simp_all add: appendAction_def call_def replicate_append_same)
  then show ?thesis by (simp add: sendTimes_def)
qed

lemma announce_game:
  "game (announce e w) =
     (game w)\<lparr>Actions := Actions (game w) @
        map (\<lambda>p. ActionText ''text'' (timeText e (game w) p)) (Game_Players (game w)) @
        [ActionText ''text'' (''The total game duration was: '' @
           durationToString e (time_Sub e (DatetimeFinished (game w)) (DatetimeStarted (game w))))],
       Turn := wrap_int (Turn (game w) + 1)\<rparr>"
  by (simp add: announce_def Let_def sendTotalTime_def sendTimes_eq)

lemma announce_frame [simp]:
  "table (announce e w) = table w" "tables (announce e w) = tables w"
  by (simp_all add: announce_def Let_def sendTotalTime_def sendTimes_eq)

lemma notifyEnd_game: "game (fst (notifyEnd e w)) = game (announce e w)"
  by (simp add: notifyEnd_def split: prod.splits outcome.splits)
     (metis fst_conv revealHands_frame(1))

lemma notifyEnd_frame [simp]:
  "table (fst (notifyEnd e w)) = table w" "tables (fst (notifyEnd e w)) = tables w"
  by (simp_all add: notifyEnd_def split: prod.splits outcome.splits)
     (metis fst_conv revealHands_frame(2) revealHands_frame(3) announce_frame)+

lemma convertPlayers_frame [simp]:
  "game (fst (convertPlayers e ps off w)) = game w"
  "tables (fst (convertPlayers e ps off w)) = tables w"
  "trace (fst (convertPlayers e ps off w)) = trace w"
  by (induction ps arbitrary: off w; simp split: option.splits)+

lemma electLeader_frame [simp]:
  "game (fst (electLeader w)) = game w"
  "tables (fst (electLeader w)) = tables w"
  "trace (fst (electLeader w)) = trace w"
  "Spectators (table (fst (electLeader w))) = Spectators (table w)"
  by (simp_all add: electLeader_def Let_def split: list.splits)

lemma notifySpectator_frame [simp]:
  "game (notifySpectator e w sp) = game w"
  "table (notifySpectator e w sp) = table w"
  "tables (notifySpectator e w sp) = tables w"
  by (simp_all add: notifySpectator_def Let_def)

lemma foldl_notifySpectator_frame [simp]:
  "game (foldl (notifySpectator e) w sps) = game w"
  "table (foldl (notifySpectator e) w sps) = table w"
  "tables (foldl (notifySpectator e) w sps) = tables w"
  by (induction sps arbitrary: w; simp)+

lemma ConvertToSharedReplay_game:
  "game (fst (ConvertToSharedReplay e w)) =
     (game w)\<lparr>EndTurn := Turn (game w), Turn := wrap_int (Turn (game w) - 1)\<rparr>"
proof -
  define w1 where "w1 = w\<lparr>table := (table w)\<lparr>Table_Replay := True,
                     Table_Name := ''Shared replay for game #'' @ Itoa (Game_ID (game w)),
                     Progress := 100\<rparr>,
                  game := (game w)\<lparr>EndTurn := Turn (game w),
                     Turn := wrap_int (Turn (game w) - 1)\<rparr>\<rparr>"
  obtain w2 r where c: "convertPlayers e (Table_Players (table w1)) False w1 = (w2, r)"
    by (cases "convertPlayers e (Table_Players (table w1)) False w1")
  have g2: "game w2 = game w1"
    using convertPlayers_frame(1) [of e "Table_Players (table w1)" False w1] by (simp add: c)
  obtain w3 r3 where l: "electLeader w2 = (w3, r3)" by (cases "electLeader w2")
  have g3: "game w3 = game w2" using electLeader_frame(1) [of w2] by (simp add: l)
  have "game (fst (ConvertToSharedReplay e w)) = game w1"
    unfolding ConvertToSharedReplay_def Let_def w1_def [symmetric]
    by (simp add: c l g2 g3 split: outcome.splits)
  then show ?thesis by (simp add: w1_def)
qed

lemma finish_simps [simp]:
  "table (finish e w) = table w" "tables (finish e w) = tables w"
  "trace (finish e w) = trace w @ [NotifyGameAction]"
  "Game_Options (game (finish e w)) = Game_Options (game w)"
  by (simp_all add: finish_def Let_def)

lemma End_replay: "Replay (Game_Options (game w)) \<Longrightarrow> End e w = (finish e w, Return ())"
  by (simp add: End_def Let_def)

lemma End_field:
  assumes live: "\<not> Replay (Game_Options (game w))"
    and F: "\<And>g i. F (g\<lparr>Game_ID := i\<rparr>) = F g" "\<And>g n. F (g\<lparr>Turn := n\<rparr>) = F g"
      "\<And>g n. F (g\<lparr>EndTurn := n\<rparr>) = F g"
  shows "F (game (fst (End e w))) = F (game (announce e (finish e w)))"
proof -
  obtain w2 r2 where n: "notifyEnd e (finish e w) = (w2, r2)"
    by (cases "notifyEnd e (finish e w)")
  have g2: "game w2 = game (announce e (finish e w))"
    using notifyEnd_game [of e "finish e w"] by (simp add: n)
  obtain w3 r3 where d: "WriteDatabase e w2 = (w3, r3)" by (cases "WriteDatabase e w2")
  have "wrote (Score (game w2)) w2 w3" using WriteDatabase_wrote [of w2 e] by (simp add: d)
  then obtain i where "game w3 = (game w2)\<lparr>Game_ID := i\<rparr>" unfolding wrote_iff by blast
  then have g3: "F (game w3) = F (game w2)" by (simp add: F)
  have "F (game (fst (ConvertToSharedReplay e w'))) = F (game w')" for w'
    by (simp add: ConvertToSharedReplay_game F)
  then show ?thesis
    using live g2 g3
    by (simp add: End_def Let_def n d split: outcome.splits option.splits sum.splits)
qed

lemma told_iff: "told s w w' \<longleftrightarrow> (\<exists>evs. trace w' = trace w @ evs \<and> list_all (carries s) evs)"
proof
  assume h: "told s w w'"
  then have "trace w' = trace w @ newEvents w w'"
    unfolding told_def newEvents_def by (metis append_take_drop_id)
  with h show "\<exists>evs. trace w' = trace w @ evs \<and> list_all (carries s) evs"
    unfolding told_def by blast
qed (auto simp: told_def newEvents_def)

lemma told_refl: "told s w w" by (simp add: told_iff)

lemma told_trans: "told s w w' \<Longrightarrow> told s w' w'' \<Longrightarrow> told s w w''"
  unfolding told_iff by (elim conjE exE) simp

lemma told_call: "carries s ev \<Longrightarrow> told s w (call ev w)"
  by (simp add: told_iff)

lemma storage_carries: "storage s ev \<Longrightarrow> carries s ev"
  by (cases ev) simp_all

lemma wrote_told: "wrote s w w' \<Longrightarrow> told s w w'"
  unfolding wrote_iff told_iff by (auto simp: list_all_iff storage_carries)

lemma told_foldl:
  "(\<And>w x. told s w (f w x)) \<Longrightarrow> told s w (foldl f w xs)"
  by (induction xs arbitrary: w) (auto simp: told_refl intro: told_trans)

lemma told_finish: "told s w (finish e w)"
  by (simp add: told_iff)

lemma told_announce: "told s w (announce e w)"
  unfolding announce_def Let_def sendTotalTime_def sendTimes_def
  by (simp add: told_iff sendTimes_eq [unfolded sendTimes_def] list_all_iff)

lemma told_revealHands: "told s w (fst (revealHands gps w))"
proof (induction gps arbitrary: w)
  case Nil
  show ?case by (simp add: told_refl)
next
  case (Cons gp gps)
  have "told s w (foldl (\<lambda>w' c. call (Emit x ''reveal''
          (RevealMessage (Card_Suit c) (Card_Rank c) (Card_Order c))) w') w cs)" for x cs
    by (rule told_foldl) (simp add: told_call)
  then show ?case
    by (auto simp: told_refl Cons.IH split: option.splits intro: told_trans [OF _ Cons.IH])
qed

lemma told_resetStatus: "told s w (resetStatus e w)"
  unfolding resetStatus_def
  by (rule told_foldl) (simp add: resetPlayer_def told_iff)

lemma told_notifyEnd: "told s w (fst (notifyEnd e w))"
proof -
  obtain w' r where h: "revealHands (Game_Players (game w)) (announce e w) = (w', r)"
    by (cases "revealHands (Game_Players (game w)) (announce e w)")
  have a: "told s w w'"
    using told_trans [OF told_announce [of s w e]
            told_revealHands [of s "announce e w" "Game_Players (game w)"]]
    by (simp add: h)
  have "told s w' (resetStatus e (call (NotifyAllTableGone (Table_ID (table w'))) w'))"
    by (rule told_trans [OF told_call told_resetStatus]) simp
  with a show ?thesis
    by (auto simp: notifyEnd_def h split: outcome.splits intro: told_trans)
qed

lemma told_sendHistory: "Score (game w) = s \<Longrightarrow> told s w (sendHistory w n)"
  unfolding sendHistory_def
  by (rule told_foldl) (simp add: told_call gameHistory_def Let_def)

lemma told_ConvertToSharedReplay: "told s w (fst (ConvertToSharedReplay e w))"
proof -
  define w1 where "w1 = w\<lparr>table := (table w)\<lparr>Table_Replay := True,
                     Table_Name := ''Shared replay for game #'' @ Itoa (Game_ID (game w)),
                     Progress := 100\<rparr>,
                  game := (game w)\<lparr>EndTurn := Turn (game w),
                     Turn := wrap_int (Turn (game w) - 1)\<rparr>\<rparr>"
  obtain w2 r where c: "convertPlayers e (Table_Players (table w1)) False w1 = (w2, r)"
    by (cases "convertPlayers e (Table_Players (table w1)) False w1")
  have "trace w2 = trace w1"
    using convertPlayers_frame(3) [of e "Table_Players (table w1)" False w1] by (simp add: c)
  then have t2: "trace w2 = trace w" by (simp add: w1_def)
  obtain w3 r3 where l: "electLeader w2 = (w3, r3)" by (cases "electLeader w2")
  have t3: "trace w3 = trace w" using electLeader_frame(3) [of w2] by (simp add: l t2)
  have n: "told s v (foldl (notifySpectator e) v sps)" for v sps
    by (rule told_foldl) (simp add: notifySpectator_def Let_def told_iff)
  have e: "told s w v" if "trace v = trace w" for v
    using that by (simp add: told_iff)
  have f: "told s w (call NotifySpectators (call (NotifyAllTable i)
             (foldl (notifySpectator e) (call NotifyConnected v) sps)))"
    if "trace v = trace w" for v sps i
    using that n [of "call NotifyConnected v" sps]
    by (auto simp: told_iff)
  show ?thesis
    unfolding ConvertToSharedReplay_def Let_def w1_def [symmetric]
    by (simp add: c l t2 t3 e f split: outcome.splits)
qed

lemma sint_neg:
  assumes "- (2 ^ 63) < sint (t :: 64 word)"
  shows "sint (- t) = - sint t"
proof -
  have "sint (- t) = signed_take_bit 63 (- sint t)" by (simp add: sint_word_ariths)
  moreover have "sint t < 2 ^ 63" using sint_lt [of t] by simp
  ultimately show ?thesis using assms by (simp add: signed_take_bit_int_eq_self)
qed

lemma End_Actions:
  assumes "\<not> Replay (Game_Options (game w))"
  shows "Actions (game (fst (End e w))) =
     Actions (game w) @
     [ActionDeckOrder ''deckOrder''
        (map (\<lambda>c. \<lparr>SimpleCard_Suit = Card_Suit c, SimpleCard_Rank = Card_Rank c\<rparr>) (Deck (game w)))] @
     map (\<lambda>p. ActionText ''text''
            (if Timed (Game_Options (game w))
             then GamePlayer_Name p @ '' had '' @ durationToString e (Time p) @ '' left''
             else GamePlayer_Name p @ '' took: '' @ durationToString e (Time p * - 1)))
       (Game_Players (game w)) @
     [ActionText ''text'' (''The total game duration was: '' @
        durationToString e (time_Sub e (time_Now e) (DatetimeStarted (game w))))]"
proof -
  have "Actions (game (fst (End e w))) = Actions (game (announce e (finish e w)))"
    by (rule End_field [OF assms]) simp_all
  then show ?thesis
    by (simp add: announce_game finish_def Let_def deckOrder_def timeText_def)
qed

lemma End_Score:
  "Score (game (fst (End e w))) =
     (if EndCondition (game w) > EndConditionNormal e then 0 else Score (game w))"
proof (cases "Replay (Game_Options (game w))")
  case True
  then show ?thesis by (simp add: End_replay finish_def Let_def)
next
  case False
  have "Score (game (fst (End e w))) = Score (game (announce e (finish e w)))"
    by (rule End_field [OF False]) simp_all
  then show ?thesis
    by (simp add: announce_game finish_def Let_def)
qed

lemma End_told:
  "told (if EndCondition (game w) > EndConditionNormal e then 0 else Score (game w)) w (fst (End e w))"
proof -
  define s where "s = (if EndCondition (game w) > EndConditionNormal e then 0 else Score (game w))"
  have f: "told s w (finish e w)" by (rule told_finish)
  have sf: "Score (game (finish e w)) = s" by (simp add: finish_def Let_def s_def)
  obtain w2 r2 where n: "notifyEnd e (finish e w) = (w2, r2)"
    by (cases "notifyEnd e (finish e w)")
  have t2: "told s w w2"
    using told_trans [OF f told_notifyEnd [of s "finish e w" e]] by (simp add: n)
  have s2: "Score (game w2) = s"
    using notifyEnd_game [of e "finish e w"] sf by (simp add: n announce_game)
  obtain w3 r3 where d: "WriteDatabase e w2 = (w3, r3)" by (cases "WriteDatabase e w2")
  have wr: "wrote s w2 w3" using WriteDatabase_wrote [of w2 e] by (simp add: d s2)
  have t3: "told s w w3" by (rule told_trans [OF t2 wrote_told [OF wr]])
  have s3: "Score (game w3) = s" using wrote_Score [OF wr] s2 by simp
  have t4: "told s w (call (Games_GetNumSimilar (Seed (game w3))) w3)"
    by (rule told_trans [OF t3 told_call]) simp
  have "told s w (sendHistory (call (Games_GetNumSimilar (Seed (game w3))) w3) k)" for k
    by (rule told_trans [OF t4 told_sendHistory]) (simp add: s3)
  then have t5: "told s w (fst (ConvertToSharedReplay e
      (sendHistory (call (Games_GetNumSimilar (Seed (game w3))) w3) k)))" for k
    by (rule told_trans [OF _ told_ConvertToSharedReplay])
  show ?thesis
    unfolding s_def [symmetric]
    using f t2 t3 t4 t5
    by (simp add: End_def Let_def n d split: outcome.splits option.splits sum.splits)
qed

lemma actionRows_Nil [simp]: "actionRows gid i [] = []"
  by (simp add: actionRows_def)

lemma actionRows_Cons:
  "actionRows gid i (a # as) = GameActions_Insert gid i a # actionRows gid (i + 1) as"
  unfolding actionRows_def
  by (simp add: map_upt_Suc del: upt_Suc)

lemma insertActions_rows:
  "\<exists>m. fst (insertActions e i as w) =
          w\<lparr>trace := trace w @ take m (actionRows (Game_ID (game w)) i as)\<rparr> \<and>
       (snd (insertActions e i as w) = Return None \<longrightarrow>
          fst (insertActions e i as w) = w\<lparr>trace := trace w @ actionRows (Game_ID (game w)) i as\<rparr>)"
proof (induction as arbitrary: i w)
  case Nil
  show ?case by simp
next
  case (Cons a as)
  let ?w' = "call (GameActions_Insert (Game_ID (game w)) i a) w"
  show ?case
  proof (cases "models_GameActions_Insert e (trace w) (Game_ID (game w)) i a")
    case (Some err)
    then have "fst (insertActions e i (a # as) w) =
        w\<lparr>trace := trace w @ take 1 (actionRows (Game_ID (game w)) i (a # as))\<rparr>"
      by (simp add: actionRows_Cons call_def)
    with Some show ?thesis by (auto simp: Let_def)
  next
    case None
    from Cons.IH [of "i + 1" ?w'] obtain m where
      m: "fst (insertActions e (i + 1) as ?w') =
            ?w'\<lparr>trace := trace ?w' @ take m (actionRows (Game_ID (game w)) (i + 1) as)\<rparr>"
      and all: "snd (insertActions e (i + 1) as ?w') = Return None \<longrightarrow>
          fst (insertActions e (i + 1) as ?w') =
            ?w'\<lparr>trace := trace ?w' @ actionRows (Game_ID (game w)) (i + 1) as\<rparr>"
      by auto
    have "fst (insertActions e i (a # as) w) =
        w\<lparr>trace := trace w @ take (Suc m) (actionRows (Game_ID (game w)) i (a # as))\<rparr>"
      using None m by (simp add: actionRows_Cons call_def)
    moreover have "snd (insertActions e i (a # as) w) = Return None \<longrightarrow>
        fst (insertActions e i (a # as) w) =
          w\<lparr>trace := trace w @ actionRows (Game_ID (game w)) i (a # as)\<rparr>"
      using None all by (simp add: actionRows_Cons call_def)
    ultimately show ?thesis by blast
  qed
qed

lemma insertActions_accepted:
  "(\<And>tr i a. models_GameActions_Insert e tr gid i a = None) \<Longrightarrow> Game_ID (game w) = gid \<Longrightarrow>
   snd (insertActions e i as w) = Return None"
  by (induction as arbitrary: i w) (simp_all add: Let_def)

lemma expectedRows_eq:
  "expectedRows e g = actionRows (Game_ID g) 0 (Actions2 g) @
     (case gameOverAction e g of None \<Rightarrow> []
      | Some a \<Rightarrow> [GameActions_Insert (Game_ID g) (int (length (Actions2 g))) a])"
  by (simp add: expectedRows_def actionRows_def gameOverAction_def)

lemma take_append_first: "take m xs = take (min m (length xs)) (xs @ ys)"
  by (cases "m \<le> length xs") (simp_all add: min_def)

lemma insertAllActions_eq:
  "(\<exists>m. fst (insertAllActions e w) = w\<lparr>trace := trace w @ take m (expectedRows e (game w))\<rparr>) \<and>
   (snd (insertAllActions e w) = Return None \<longrightarrow>
      fst (insertAllActions e w) = w\<lparr>trace := trace w @ expectedRows e (game w)\<rparr>)"
proof -
  let ?rows = "actionRows (Game_ID (game w)) 0 (Actions2 (game w))"
  let ?r = "insertActions e 0 (Actions2 (game w)) w"
  obtain w1 r1 where r: "?r = (w1, r1)" by (cases ?r)
  from insertActions_rows [of e 0 "Actions2 (game w)" w] obtain m where
    m: "w1 = w\<lparr>trace := trace w @ take m ?rows\<rparr>"
    and all: "r1 = Return None \<longrightarrow> w1 = w\<lparr>trace := trace w @ ?rows\<rparr>"
    by (auto simp: r)
  show ?thesis
  proof (cases "r1 = Return None")
    case False
    then have "insertAllActions e w = (w1, r1)"
      by (auto simp: insertAllActions_def andThen_def r split: outcome.splits option.splits)
    moreover have "take m ?rows = take (min m (length ?rows)) (expectedRows e (game w))"
      unfolding expectedRows_eq by (rule take_append_first)
    ultimately show ?thesis using False m by auto
  next
    case True
    with all have w1: "w1 = w\<lparr>trace := trace w @ ?rows\<rparr>" by simp
    have i: "insertAllActions e w = insertGameOver e w1"
      using True by (simp add: insertAllActions_def andThen_def r)
    show ?thesis
    proof (cases "gameOverAction e (game w)")
      case None
      then have "insertGameOver e w1 = (w1, Return None)" by (simp add: insertGameOver_def w1)
      moreover have "expectedRows e (game w) = ?rows" by (simp add: expectedRows_eq None)
      ultimately show ?thesis
        using w1 i by (auto intro: exI [of _ "length ?rows"])
    next
      case (Some a)
      then have "fst (insertGameOver e w1) = w\<lparr>trace := trace w @ expectedRows e (game w)\<rparr>"
        by (simp add: insertGameOver_def w1 Let_def expectedRows_eq call_def split: option.splits)
      then show ?thesis
        using i by (auto intro: exI [of _ "length (expectedRows e (game w))"])
    qed
  qed
qed

lemma insertAllActions_accepted:
  assumes "\<And>tr i a. models_GameActions_Insert e tr (Game_ID (game w)) i a = None"
  shows "snd (insertAllActions e w) = Return None"
proof -
  let ?r = "insertActions e 0 (Actions2 (game w)) w"
  obtain w1 r1 where r: "?r = (w1, r1)" by (cases ?r)
  have r1: "r1 = Return None"
    using insertActions_accepted [of e "Game_ID (game w)" w 0 "Actions2 (game w)"] assms
    by (simp add: r)
  from insertActions_rows [of e 0 "Actions2 (game w)" w]
  have "game w1 = game w" by (auto simp: r)
  then have "snd (insertGameOver e w1) = Return None"
    using assms by (simp add: insertGameOver_def Let_def split: option.splits)
  then show ?thesis by (simp add: insertAllActions_def andThen_def r r1)
qed

lemma convertPlayers_idle:
  "EndCondition (game w) = EndConditionIdleTimeout e \<Longrightarrow>
   fst (convertPlayers e ps off w) = w \<and> (\<exists>off'. snd (convertPlayers e ps off w) = Return off')"
  by (induction ps arbitrary: off) simp_all

lemma ConvertToSharedReplay_Spectators:
  "Spectators (table (fst (ConvertToSharedReplay e w))) =
   Spectators (table (fst (convertPlayers e (Table_Players (table w)) False
     (w\<lparr>table := (table w)\<lparr>Table_Replay := True,
                     Table_Name := ''Shared replay for game #'' @ Itoa (Game_ID (game w)),
                     Progress := 100\<rparr>,
                  game := (game w)\<lparr>EndTurn := Turn (game w),
                     Turn := wrap_int (Turn (game w) - 1)\<rparr>\<rparr>))))"
proof -
  define w1 where "w1 = w\<lparr>table := (table w)\<lparr>Table_Replay := True,
                     Table_Name := ''Shared replay for game #'' @ Itoa (Game_ID (game w)),
                     Progress := 100\<rparr>,
                  game := (game w)\<lparr>EndTurn := Turn (game w),
                     Turn := wrap_int (Turn (game w) - 1)\<rparr>\<rparr>"
  have p: "Table_Players (table w1) = Table_Players (table w)" by (simp add: w1_def)
  obtain w2 r where c: "convertPlayers e (Table_Players (table w)) False w1 = (w2, r)"
    by (cases "convertPlayers e (Table_Players (table w)) False w1")
  obtain w3 r3 where l: "electLeader w2 = (w3, r3)" by (cases "electLeader w2")
  have s3: "Spectators (table w3) = Spectators (table w2)"
    using electLeader_frame(4) [of w2] by (simp add: l)
  show ?thesis
    unfolding ConvertToSharedReplay_def Let_def w1_def [symmetric] p
    by (simp add: c l s3 split: outcome.splits)
qed

lemma electLeader_Owner:
  "Owner (table (fst (electLeader w))) =
     (if firstPresent (Table_Players (table w)) \<noteq> - 1
      then (case Spectators (table w) of
              [] \<Rightarrow> firstPresent (Table_Players (table w))
            | sp # _ \<Rightarrow> Spectator_ID sp)
      else - 1)"
  by (simp add: electLeader_def Let_def split: list.splits)

lemma firstPresent_none: "\<forall>p \<in> set ps. \<not> Present p \<Longrightarrow> firstPresent ps = - 1"
  by (induction ps) (simp_all add: firstPresent_def)

lemma sendHistory_trace:
  "trace (sendHistory w n) = trace w @
     map (\<lambda>p. Emit (Player_Session p) ''gameHistory'' (GameHistoryList [gameHistory w n]))
       (Table_Players (table w))"
  by (simp add: sendHistory_def foldl_call)

lemma End_after_finish:
  "told (if EndCondition (game w) > EndConditionNormal e then 0 else Score (game w))
     (finish e w) (fst (End e w))"
proof (cases "Replay (Game_Options (game w))")
  case True
  then show ?thesis by (simp add: End_replay told_refl)
next
  case False
  define s where "s = (if EndCondition (game w) > EndConditionNormal e then 0 else Score (game w))"
  have sf: "Score (game (finish e w)) = s" by (simp add: finish_def Let_def s_def)
  obtain w2 r2 where n: "notifyEnd e (finish e w) = (w2, r2)"
    by (cases "notifyEnd e (finish e w)")
  have t2: "told s (finish e w) w2"
    using told_notifyEnd [of s "finish e w" e] by (simp add: n)
  have s2: "Score (game w2) = s"
    using notifyEnd_game [of e "finish e w"] sf by (simp add: n announce_game)
  obtain w3 r3 where d: "WriteDatabase e w2 = (w3, r3)" by (cases "WriteDatabase e w2")
  have wr: "wrote s w2 w3" using WriteDatabase_wrote [of w2 e] by (simp add: d s2)
  have t3: "told s (finish e w) w3" by (rule told_trans [OF t2 wrote_told [OF wr]])
  have s3: "Score (game w3) = s" using wrote_Score [OF wr] s2 by simp
  have t4: "told s (finish e w) (call (Games_GetNumSimilar (Seed (game w3))) w3)"
    by (rule told_trans [OF t3 told_call]) simp
  have "told s (finish e w) (sendHistory (call (Games_GetNumSimilar (Seed (game w3))) w3) k)" for k
    by (rule told_trans [OF t4 told_sendHistory]) (simp add: s3)
  then have t5: "told s (finish e w) (fst (ConvertToSharedReplay e
      (sendHistory (call (Games_GetNumSimilar (Seed (game w3))) w3) k)))" for k
    by (rule told_trans [OF _ told_ConvertToSharedReplay])
  show ?thesis
    unfolding s_def [symmetric]
    using False t2 t3 t4 t5
    by (simp add: End_def Let_def n d split: outcome.splits option.splits sum.splits)
qed

lemma finish_played_score:
  "EndConditionNormal e < EndCondition (game w) \<Longrightarrow>
   finish e (w\<lparr>game := (game w)\<lparr>Score := s\<rparr>\<rparr>) = finish e w"
  by (simp add: finish_def Let_def deckOrder_def)

lemma End_played_score:
  "EndConditionNormal e < EndCondition (game w) \<Longrightarrow>
   End e (w\<lparr>game := (game w)\<lparr>Score := s\<rparr>\<rparr>) = End e w"
  unfolding End_def by (simp add: finish_played_score)

lemma only_iff: "only P w w' \<longleftrightarrow> (\<exists>evs. trace w' = trace w @ evs \<and> list_all P evs)"
proof
  assume h: "only P w w'"
  then have "trace w' = trace w @ newEvents w w'"
    unfolding only_def newEvents_def by (metis append_take_drop_id)
  with h show "\<exists>evs. trace w' = trace w @ evs \<and> list_all P evs"
    unfolding only_def by blast
qed (auto simp: only_def newEvents_def)

lemma only_refl: "only P w w" by (simp add: only_iff)

lemma only_trans: "only P w w' \<Longrightarrow> only P w' w'' \<Longrightarrow> only P w w''"
  unfolding only_iff by (elim conjE exE) simp

lemma only_call: "P ev \<Longrightarrow> only P w (call ev w)"
  by (simp add: only_iff)

lemma only_foldl: "(\<And>w x. only P w (f w x)) \<Longrightarrow> only P w (foldl f w xs)"
  by (induction xs arbitrary: w) (auto simp: only_refl intro: only_trans)

lemma storage_handled: "storage s ev \<Longrightarrow> handled ev"
  by (cases ev) simp_all

lemma wrote_handled: "wrote s w w' \<Longrightarrow> only handled w w'"
  unfolding wrote_iff only_iff by (auto simp: list_all_iff intro: storage_handled)

lemma handled_finish: "only handled w (finish e w)"
  by (simp add: only_iff)

lemma handled_announce: "only handled w (announce e w)"
  unfolding announce_def Let_def sendTotalTime_def sendTimes_def
  by (simp add: only_iff sendTimes_eq [unfolded sendTimes_def] list_all_iff)

lemma handled_revealHands: "only handled w (fst (revealHands gps w))"
proof (induction gps arbitrary: w)
  case Nil
  show ?case by (simp add: only_refl)
next
  case (Cons gp gps)
  have "only handled w (foldl (\<lambda>w' c. call (Emit x ''reveal''
          (RevealMessage (Card_Suit c) (Card_Rank c) (Card_Order c))) w') w cs)" for x cs
    by (rule only_foldl) (simp add: only_call)
  then show ?case
    by (auto simp: only_refl Cons.IH split: option.splits intro: only_trans [OF _ Cons.IH])
qed

lemma handled_resetPlayer: "only handled w (resetPlayer e w p)"
  by (cases "Player_Session p") (simp_all add: resetPlayer_def only_iff)

lemma handled_resetStatus: "only handled w (resetStatus e w)"
  unfolding resetStatus_def by (rule only_foldl) (rule handled_resetPlayer)

lemma handled_notifyEnd: "only handled w (fst (notifyEnd e w))"
proof -
  obtain w' r where h: "revealHands (Game_Players (game w)) (announce e w) = (w', r)"
    by (cases "revealHands (Game_Players (game w)) (announce e w)")
  have a: "only handled w w'"
    using only_trans [OF handled_announce [of w e]
            handled_revealHands [of "announce e w" "Game_Players (game w)"]]
    by (simp add: h)
  have "only handled w' (resetStatus e (call (NotifyAllTableGone (Table_ID (table w'))) w'))"
    by (rule only_trans [OF only_call handled_resetStatus]) simp
  with a show ?thesis
    by (auto simp: notifyEnd_def h split: outcome.splits intro: only_trans)
qed

lemma handled_sendHistory: "only handled w (sendHistory w n)"
  unfolding sendHistory_def by (rule only_foldl) (simp add: only_call)

lemma handled_notifySpectator: "only handled w (notifySpectator e w sp)"
  by (cases "Spectator_Session sp") (simp_all add: notifySpectator_def Let_def only_iff)

lemma handled_ConvertToSharedReplay: "only handled w (fst (ConvertToSharedReplay e w))"
proof -
  define w1 where "w1 = w\<lparr>table := (table w)\<lparr>Table_Replay := True,
                     Table_Name := ''Shared replay for game #'' @ Itoa (Game_ID (game w)),
                     Progress := 100\<rparr>,
                  game := (game w)\<lparr>EndTurn := Turn (game w),
                     Turn := wrap_int (Turn (game w) - 1)\<rparr>\<rparr>"
  obtain w2 r where c: "convertPlayers e (Table_Players (table w1)) False w1 = (w2, r)"
    by (cases "convertPlayers e (Table_Players (table w1)) False w1")
  have "trace w2 = trace w1"
    using convertPlayers_frame(3) [of e "Table_Players (table w1)" False w1] by (simp add: c)
  then have t2: "trace w2 = trace w" by (simp add: w1_def)
  obtain w3 r3 where l: "electLeader w2 = (w3, r3)" by (cases "electLeader w2")
  have t3: "trace w3 = trace w" using electLeader_frame(3) [of w2] by (simp add: l t2)
  have n: "only handled v (foldl (notifySpectator e) v sps)" for v sps
    by (rule only_foldl) (rule handled_notifySpectator)
  have e: "only handled w v" if "trace v = trace w" for v
    using that by (simp add: only_iff)
  have f: "only handled w (call NotifySpectators (call (NotifyAllTable i)
             (foldl (notifySpectator e) (call NotifyConnected v) sps)))"
    if "trace v = trace w" for v sps i
    using that n [of "call NotifyConnected v" sps]
    by (auto simp: only_iff)
  show ?thesis
    unfolding ConvertToSharedReplay_def Let_def w1_def [symmetric]
    by (simp add: c l t2 t3 e f split: outcome.splits)
qed

lemma handled_End: "only handled w (fst (End e w))"
proof -
  have f: "only handled w (finish e w)" by (rule handled_finish)
  obtain w2 r2 where n: "notifyEnd e (finish e w) = (w2, r2)"
    by (cases "notifyEnd e (finish e w)")
  have t2: "only handled w w2"
    using only_trans [OF f handled_notifyEnd [of "finish e w" e]] by (simp add: n)
  obtain w3 r3 where d: "WriteDatabase e w2 = (w3, r3)" by (cases "WriteDatabase e w2")
  have wr: "wrote (Score (game w2)) w2 w3" using WriteDatabase_wrote [of w2 e] by (simp add: d)
  have t3: "only handled w w3" by (rule only_trans [OF t2 wrote_handled [OF wr]])
  have t4: "only handled w (call (Games_GetNumSimilar (Seed (game w3))) w3)"
    by (rule only_trans [OF t3 only_call]) simp
  have "only handled w (sendHistory (call (Games_GetNumSimilar (Seed (game w3))) w3) k)" for k
    by (rule only_trans [OF t4 handled_sendHistory])
  then have t5: "only handled w (fst (ConvertToSharedReplay e
      (sendHistory (call (Games_GetNumSimilar (Seed (game w3))) w3) k)))" for k
    by (rule only_trans [OF _ handled_ConvertToSharedReplay])
  show ?thesis
    using f t2 t3 t4 t5
    by (simp add: End_def Let_def n d split: outcome.splits option.splits sum.splits)
qed

lemma deliveries_append [simp]: "deliveries (xs @ ys) = deliveries xs @ deliveries ys"
  by (simp add: deliveries_def)

lemma deliveries_Nil [simp]: "deliveries [] = []"
  by (simp add: deliveries_def)

lemma deliveries_sendHistory:
  "deliveries (newEvents w (sendHistory w n)) =
     map (\<lambda>s. (''Emit gameHistory'', s)) (List.map_filter Player_Session (Table_Players (table w)))"
proof -
  have "deliveries (map (\<lambda>p. Emit (Player_Session p) ''gameHistory'' m) ps) =
      map (\<lambda>s. (''Emit gameHistory'', s)) (List.map_filter Player_Session ps)" for m ps
  proof (induction ps)
    case Nil
    show ?case by (simp add: List.map_filter_simps)
  next
    case (Cons p ps)
    then show ?case
      by (cases "Player_Session p") (simp_all add: deliveries_def List.map_filter_simps)
  qed
  then show ?thesis by (simp add: newEvents_def sendHistory_trace)
qed

lemma notifySpectator_trace:
  "trace (foldl (notifySpectator e) w sps) = trace w @
     concat (map (\<lambda>sp.
       (if Spectator_Session sp \<noteq> None
        then [Session_Set (Spectator_Session sp) ''status'' (StatusSharedReplay e),
              NotifyAllUser (Spectator_Session sp)]
        else []) @
       [NotifyReplayLeader (Spectator_Session sp) False, NotifyNoteList (Spectator_Session sp),
        Emit (Spectator_Session sp) ''databaseID'' (IDMessage (Table_ID (table w)) (Game_ID (game w)))])
       sps)"
  by (induction sps arbitrary: w) (simp_all add: notifySpectator_def Let_def)

lemma deliveries_notifySpectator:
  "deliveries (newEvents w (foldl (notifySpectator e) w sps)) =
     concat (map (\<lambda>s. [(''NotifyReplayLeader'', s), (''NotifyNoteList'', s), (''Emit databaseID'', s)])
       (List.map_filter Spectator_Session sps))"
proof -
  have "deliveries (concat (map (\<lambda>sp.
       (if Spectator_Session sp \<noteq> None
        then [Session_Set (Spectator_Session sp) ''status'' k,
              NotifyAllUser (Spectator_Session sp)]
        else []) @
       [NotifyReplayLeader (Spectator_Session sp) False, NotifyNoteList (Spectator_Session sp),
        Emit (Spectator_Session sp) ''databaseID'' m]) sps)) =
     concat (map (\<lambda>s. [(''NotifyReplayLeader'', s), (''NotifyNoteList'', s), (''Emit databaseID'', s)])
       (List.map_filter Spectator_Session sps))" for k m sps
  proof (induction sps)
    case Nil
    show ?case by (simp add: List.map_filter_simps)
  next
    case (Cons sp sps)
    then show ?case
      by (cases "Spectator_Session sp") (simp_all add: deliveries_def List.map_filter_simps)
  qed
  then show ?thesis by (simp add: newEvents_def notifySpectator_trace)
qed

section \<open>The claims\<close>

text \<open>
  C5. When the options of the game mark it as a replay, \<^verbatim>\<open>End\<close> appends exactly one
  deck-order action, which lists every card of the deck, announces it with one
  \<^verbatim>\<open>NotifyGameAction\<close>, and returns. The result differs from the input in nothing else
  but the finish time and the forced score set before: no text action is appended, the
  turn is the same, the trace gains no call to the storage gateway, the table and the
  registry are the same.
\<close>

theorem End_on_replay:
  assumes "Replay (Game_Options (game w))"
  shows "End e w =
     (w\<lparr>game := (game w)
           \<lparr>DatetimeFinished := time_Now e,
            Score := (if EndCondition (game w) > EndConditionNormal e then 0 else Score (game w)),
            Actions := Actions (game w) @
              [ActionDeckOrder ''deckOrder''
                 (map (\<lambda>c. \<lparr>SimpleCard_Suit = Card_Suit c, SimpleCard_Rank = Card_Rank c\<rparr>)
                    (Deck (game w)))]\<rparr>,
         trace := trace w @ [NotifyGameAction]\<rparr>,
      Return ())"
  using assms
  by (simp add: End_def finish_def Let_def appendAction_def call_def deckOrder_def)

theorem End_on_replay_witness:
  "Replay (Game_Options (game replayWorld)) \<and>
   End env1 replayWorld =
     (replayWorld\<lparr>game := (game replayWorld)
        \<lparr>DatetimeFinished := 2000,
         Actions := [ActionOther 0, ActionDeckOrder ''deckOrder''
            [\<lparr>SimpleCard_Suit = 1, SimpleCard_Rank = 2\<rparr>,
             \<lparr>SimpleCard_Suit = 3, SimpleCard_Rank = 4\<rparr>]]\<rparr>,
        trace := [NotifyGameAction]\<rparr>, Return ())"
proof -
  have h: "Replay (Game_Options (game replayWorld))"
    by (simp add: replayWorld_def example_defs)
  show ?thesis
    using h End_on_replay [OF h, of env1] by (simp add: replayWorld_def example_defs)
qed

text \<open>
  C7. \<^verbatim>\<open>End\<close> runs on a game that has ended: its end condition is Normal or one of the
  codes above it (the test of the source is \<^verbatim>\<open>g.EndCondition > EndConditionNormal\<close>). For
  every such game whose end condition is not Normal the score is 0 whatever it was during
  play: \<open>finish\<close> sets it before it makes the first call of \<^verbatim>\<open>End\<close>, the announcement of
  the deck-order action, so that call is made in a world whose score is 0 already; every
  call \<^verbatim>\<open>End\<close> makes comes after it; every game row and history message handed over
  carries 0; the game \<^verbatim>\<open>End\<close> leaves has the score 0; and nothing \<^verbatim>\<open>End\<close> does or
  returns depends on the score computed during play. For a Normal end condition the score
  is left as it was and is the one handed over.
\<close>

theorem End_forces_score_unless_normal:
  assumes "EndConditionNormal e \<le> EndCondition (game w)"
  shows "(EndCondition (game w) \<noteq> EndConditionNormal e \<longrightarrow>
      Score (game (fst (End e w))) = 0 \<and>
      finish e w =
        call NotifyGameAction
          (w\<lparr>game := (game w)
              \<lparr>DatetimeFinished := time_Now e, Score := 0,
               Actions := Actions (game w) @
                 [ActionDeckOrder ''deckOrder''
                    (map (\<lambda>c. \<lparr>SimpleCard_Suit = Card_Suit c, SimpleCard_Rank = Card_Rank c\<rparr>)
                       (Deck (game w)))]\<rparr>\<rparr>) \<and>
      told 0 (finish e w) (fst (End e w)) \<and>
      told 0 w (fst (End e w)) \<and>
      (\<forall>s. End e (w\<lparr>game := (game w)\<lparr>Score := s\<rparr>\<rparr>) = End e w)) \<and>
    (EndCondition (game w) = EndConditionNormal e \<longrightarrow>
      Score (game (fst (End e w))) = Score (game w) \<and>
      Score (game (finish e w)) = Score (game w) \<and>
      told (Score (game w)) w (fst (End e w)))"
proof (cases "EndCondition (game w) = EndConditionNormal e")
  case True
  then show ?thesis
    using End_Score [where e = e and w = w] End_told [where e = e and w = w]
    by (simp add: finish_def Let_def)
next
  case False
  with assms have a: "EndConditionNormal e < EndCondition (game w)" by simp
  then show ?thesis
    using End_Score [where e = e and w = w] End_told [where e = e and w = w]
      End_after_finish [where e = e and w = w]
    by (simp add: End_played_score) (simp add: finish_def Let_def deckOrder_def appendAction_def)
qed

theorem End_forces_score_unless_normal_witness:
  "EndConditionNormal env1 \<le> EndCondition (game timeoutWorld) \<and>
   EndCondition (game timeoutWorld) \<noteq> EndConditionNormal env1 \<and>
   Score (game timeoutWorld) = 5 \<and>
   Score (game (fst (End env1 timeoutWorld))) = 0 \<and>
   told 0 timeoutWorld (fst (End env1 timeoutWorld)) \<and>
   End env1 (timeoutWorld\<lparr>game := (game timeoutWorld)\<lparr>Score := 23\<rparr>\<rparr>) = End env1 timeoutWorld \<and>
   EndCondition (game world1) = EndConditionNormal env1 \<and>
   Score (game world1) = 5 \<and>
   Score (game (fst (End env1 world1))) = 5 \<and>
   told 5 world1 (fst (End env1 world1))"
proof -
  have a: "EndConditionNormal env1 \<le> EndCondition (game timeoutWorld)"
    by (simp add: timeoutWorld_def example_defs)
  have b: "EndConditionNormal env1 \<le> EndCondition (game world1)"
    by (simp add: example_defs)
  have c: "EndCondition (game timeoutWorld) \<noteq> EndConditionNormal env1"
    by (simp add: timeoutWorld_def example_defs)
  have d: "EndCondition (game world1) = EndConditionNormal env1"
    by (simp add: example_defs)
  have s: "Score (game timeoutWorld) = 5" "Score (game world1) = 5"
    by (simp_all add: timeoutWorld_def example_defs)
  show ?thesis
    using End_forces_score_unless_normal [OF a] End_forces_score_unless_normal [OF b] a c d s
    by simp
qed

text \<open>
  C9. In a game that is not a replay, \<^verbatim>\<open>End\<close> appends, after the deck-order action, one
  text action for each player in order and then the total duration. In a timed game the
  text of a player is the name, \<open>had\<close>, the stored clock as \<^verbatim>\<open>durationToString\<close> prints
  it, \<open>left\<close>; in an untimed game it is the name, \<open>took:\<close> and the print of the stored
  clock times \<open>-1\<close>. The product is taken in \<^verbatim>\<open>int64\<close>: it is the negation of the stored
  value for every value above the least one.
\<close>

theorem End_time_announcements:
  assumes "\<not> Replay (Game_Options (game w))"
  shows "Actions (game (fst (End e w))) =
     Actions (game w) @
     [ActionDeckOrder ''deckOrder''
        (map (\<lambda>c. \<lparr>SimpleCard_Suit = Card_Suit c, SimpleCard_Rank = Card_Rank c\<rparr>) (Deck (game w)))] @
     map (\<lambda>p. ActionText ''text''
            (if Timed (Game_Options (game w))
             then GamePlayer_Name p @ '' had '' @ durationToString e (Time p) @ '' left''
             else GamePlayer_Name p @ '' took: '' @ durationToString e (Time p * - 1)))
       (Game_Players (game w)) @
     [ActionText ''text'' (''The total game duration was: '' @
        durationToString e (time_Sub e (time_Now e) (DatetimeStarted (game w))))] \<and>
   (\<forall>p \<in> set (Game_Players (game w)).
      - (2 ^ 63) < sint (Time p) \<longrightarrow> sint (Time p * - 1) = - sint (Time p))"
proof (intro conjI ballI impI)
  fix p
  assume "- (2 ^ 63) < sint (Time p)"
  then show "sint (Time p * - 1) = - sint (Time p)" using sint_neg [of "Time p"] by simp
qed (rule End_Actions [OF assms])

theorem End_time_announcements_witness:
  "\<not> Replay (Game_Options (game world1)) \<and> \<not> Timed (Game_Options (game world1)) \<and>
   map Time (Game_Players (game world1)) = [- 30, - 40] \<and>
   drop 2 (Actions (game (fst (End env1 world1)))) =
     [ActionText ''text'' ''alice took: 30'', ActionText ''text'' ''bob took: 40'',
      ActionText ''text'' ''The total game duration was: 1000''] \<and>
   - (2 ^ 63) < sint (Time (hd (Game_Players (game world1)))) \<and>
   sint (Time (hd (Game_Players (game world1))) * - 1) = 30 \<and>
   \<not> Replay (Game_Options (game timedWorld)) \<and> Timed (Game_Options (game timedWorld)) \<and>
   drop 2 (Actions (game (fst (End env1 timedWorld)))) =
     [ActionText ''text'' ''alice had -30 left'', ActionText ''text'' ''bob had -40 left'',
      ActionText ''text'' ''The total game duration was: 1000'']"
proof -
  have a: "\<not> Replay (Game_Options (game world1))" by (simp add: example_defs)
  have b: "\<not> Replay (Game_Options (game timedWorld))" by (simp add: timedWorld_def example_defs)
  show ?thesis
    using End_time_announcements [OF a, of env1] End_time_announcements [OF b, of env1]
    by (simp add: timedWorld_def example_defs Itoa_def digits.simps)
qed

text \<open>
  C8. The rows that \<^verbatim>\<open>WriteDatabase\<close> sends for the actions (\<open>insertAllActions\<close>, the
  loop over the log that is persisted, \<^verbatim>\<open>g.Actions2\<close>, and the game-over action after it)
  are the expected rows: each action at the index of its position and, exactly when the end
  condition is Timeout, Terminated or IdleTimeout, a game-over action at the index that is
  the length of the log. The calls made are always a prefix of these rows, in order (an
  insertion that fails ends them), and all of them when no insertion fails, which is the
  case when the gateway accepts every row. Nothing but the trace changes: the game-over
  action is not appended to an array of the game.
\<close>

theorem insertAllActions_rows:
  "(\<exists>m. fst (insertAllActions e w) = w\<lparr>trace := trace w @ take m (expectedRows e (game w))\<rparr>) \<and>
   (snd (insertAllActions e w) = Return None \<longrightarrow>
      fst (insertAllActions e w) = w\<lparr>trace := trace w @ expectedRows e (game w)\<rparr>) \<and>
   ((\<forall>tr i a. models_GameActions_Insert e tr (Game_ID (game w)) i a = None) \<longrightarrow>
      snd (insertAllActions e w) = Return None)"
  using insertAllActions_eq [of e w] insertAllActions_accepted [of e w] by blast

theorem insertAllActions_rows_witness:
  "(\<forall>tr i a. models_GameActions_Insert env1 tr (Game_ID (game timeoutWorld)) i a = None) \<and>
   EndCondition (game timeoutWorld) = EndConditionTimeout env1 \<and>
   insertAllActions env1 timeoutWorld =
     (timeoutWorld\<lparr>trace :=
        [GameActions_Insert 0 0 \<lparr>GameAction_Type = 0, GameAction_Target = 1, GameAction_Value = 2\<rparr>,
         GameActions_Insert 0 1 \<lparr>GameAction_Type = 1, GameAction_Target = 0, GameAction_Value = 3\<rparr>,
         GameActions_Insert 0 2 \<lparr>GameAction_Type = 5, GameAction_Target = 1, GameAction_Value = 3\<rparr>]\<rparr>,
      Return None)"
proof -
  have h: "\<forall>tr i a. models_GameActions_Insert env1 tr (Game_ID (game timeoutWorld)) i a = None"
    by (simp add: env1_def)
  have r: "snd (insertAllActions env1 timeoutWorld) = Return None"
    using insertAllActions_rows [of env1 timeoutWorld] h by blast
  then have "fst (insertAllActions env1 timeoutWorld) =
      timeoutWorld\<lparr>trace := trace timeoutWorld @ expectedRows env1 (game timeoutWorld)\<rparr>"
    using insertAllActions_rows [of env1 timeoutWorld] by blast
  then show ?thesis
    using h r
    by (simp add: prod_eq_iff) (simp add: expectedRows_def timeoutWorld_def example_defs)
qed

text \<open>
  C2. The body of the loop over the players, for any player, in any iteration. The modifier
  of the game is 0, plus 1 when deck plays are allowed, plus 2 when empty clues are. When
  the gateway returns the stats of the player, the row written back is the row read with
  the bucket of the player count (the number of players minus 2) replaced by
  \<open>userBestScore\<close> of the stored entry. That entry holds the score and the modifier of
  the game when the score of the game is strictly higher than the stored one, and when it
  is equal and the modifier of the game is strictly lower than the stored one; it is the
  stored entry when the score is equal and the modifier is not lower, and when the score
  is lower. The stored score never decreases. When the gateway fails to return the stats,
  nothing is written for that player and the loop goes on; a row without the bucket
  panics.
\<close>

theorem updateUserStats_best:
  "modifier (Game_Options (game w)) =
     (if DeckPlays (Game_Options (game w)) then 1 else 0) +
     (if EmptyClues (Game_Options (game w)) then 2 else 0) \<and>
   (models_UserStats_Get e (trace w) (Player_ID p) (Variant_ID v) = Inr stats \<and>
    index (UserStats_BestScores stats) (int (length (Game_Players (game w))) - 2) = Some b \<longrightarrow>
      updateUserStats e v (p # ps) w =
        updateUserStats e v ps
          (call (UserStats_Update (Player_ID p) (Variant_ID v)
                   (stats\<lparr>UserStats_BestScores := (UserStats_BestScores stats)
                      [nat (int (length (Game_Players (game w))) - 2) := userBestScore (game w) b]\<rparr>))
             (call (UserStats_Get (Player_ID p) (Variant_ID v)) w)) \<and>
      userBestScore (game w) b =
        (if BestScore_Score b < Score (game w) \<or>
            (BestScore_Score b = Score (game w) \<and>
             (if DeckPlays (Game_Options (game w)) then 1 else 0) +
             (if EmptyClues (Game_Options (game w)) then 2 else 0) < BestScore_Modifier b)
         then \<lparr>BestScore_Score = Score (game w),
               BestScore_Modifier =
                 (if DeckPlays (Game_Options (game w)) then 1 else 0) +
                 (if EmptyClues (Game_Options (game w)) then 2 else 0)\<rparr>
         else b) \<and>
      (BestScore_Score b < Score (game w) \<longrightarrow>
         userBestScore (game w) b =
           \<lparr>BestScore_Score = Score (game w), BestScore_Modifier = modifier (Game_Options (game w))\<rparr>) \<and>
      (BestScore_Score b = Score (game w) \<and> modifier (Game_Options (game w)) < BestScore_Modifier b \<longrightarrow>
         userBestScore (game w) b =
           \<lparr>BestScore_Score = Score (game w), BestScore_Modifier = modifier (Game_Options (game w))\<rparr>) \<and>
      (BestScore_Score b = Score (game w) \<and> BestScore_Modifier b \<le> modifier (Game_Options (game w)) \<longrightarrow>
         userBestScore (game w) b = b) \<and>
      (Score (game w) < BestScore_Score b \<longrightarrow> userBestScore (game w) b = b) \<and>
      BestScore_Score (userBestScore (game w) b) = max (Score (game w)) (BestScore_Score b)) \<and>
   (models_UserStats_Get e (trace w) (Player_ID p) (Variant_ID v) = Inl err \<longrightarrow>
      updateUserStats e v (p # ps) w =
        updateUserStats e v ps (call (UserStats_Get (Player_ID p) (Variant_ID v)) w)) \<and>
   (models_UserStats_Get e (trace w) (Player_ID p) (Variant_ID v) = Inr stats \<and>
    index (UserStats_BestScores stats) (int (length (Game_Players (game w))) - 2) = None \<longrightarrow>
      updateUserStats e v (p # ps) w =
        (call (UserStats_Get (Player_ID p) (Variant_ID v)) w, Panic IndexOutOfRange))"
  by (simp add: Let_def userBestScore_def modifier_def)

theorem updateUserStats_best_witness:
  "updateUserStats (envStored 3 0) variant1 [alice] world1 =
     (world1\<lparr>trace := [UserStats_Get 1 0, UserStats_Update 1 0
        \<lparr>UserStats_BestScores = \<lparr>BestScore_Score = 5, BestScore_Modifier = 0\<rparr> #
           replicate 4 \<lparr>BestScore_Score = 3, BestScore_Modifier = 0\<rparr>\<rparr>]\<rparr>, Return None) \<and>
   updateUserStats (envStored 5 2) variant1 [alice] world1 =
     (world1\<lparr>trace := [UserStats_Get 1 0, UserStats_Update 1 0
        \<lparr>UserStats_BestScores = \<lparr>BestScore_Score = 5, BestScore_Modifier = 0\<rparr> #
           replicate 4 \<lparr>BestScore_Score = 5, BestScore_Modifier = 2\<rparr>\<rparr>]\<rparr>, Return None) \<and>
   updateUserStats (envStored 5 0) variant1 [alice] world1 =
     (world1\<lparr>trace := [UserStats_Get 1 0, UserStats_Update 1 0
        \<lparr>UserStats_BestScores = replicate 5 \<lparr>BestScore_Score = 5, BestScore_Modifier = 0\<rparr>\<rparr>]\<rparr>,
      Return None) \<and>
   updateUserStats (envStored 9 1) variant1 [alice] world1 =
     (world1\<lparr>trace := [UserStats_Get 1 0, UserStats_Update 1 0
        \<lparr>UserStats_BestScores = replicate 5 \<lparr>BestScore_Score = 9, BestScore_Modifier = 1\<rparr>\<rparr>]\<rparr>,
      Return None) \<and>
   modifier (Game_Options (game deckPlaysWorld)) = 1 \<and>
   updateUserStats (envStored 5 1) variant1 [alice] deckPlaysWorld =
     (deckPlaysWorld\<lparr>trace := [UserStats_Get 1 0, UserStats_Update 1 0
        \<lparr>UserStats_BestScores = replicate 5 \<lparr>BestScore_Score = 5, BestScore_Modifier = 1\<rparr>\<rparr>]\<rparr>,
      Return None) \<and>
   updateUserStats (envStored 5 2) variant1 [alice] deckPlaysWorld =
     (deckPlaysWorld\<lparr>trace := [UserStats_Get 1 0, UserStats_Update 1 0
        \<lparr>UserStats_BestScores = \<lparr>BestScore_Score = 5, BestScore_Modifier = 1\<rparr> #
           replicate 4 \<lparr>BestScore_Score = 5, BestScore_Modifier = 2\<rparr>\<rparr>]\<rparr>, Return None) \<and>
   modifier (Game_Options (game bothWorld)) = 3 \<and>
   updateUserStats (envStored 5 3) variant1 [alice] bothWorld =
     (bothWorld\<lparr>trace := [UserStats_Get 1 0, UserStats_Update 1 0
        \<lparr>UserStats_BestScores = replicate 5 \<lparr>BestScore_Score = 5, BestScore_Modifier = 3\<rparr>\<rparr>]\<rparr>,
      Return None) \<and>
   updateUserStats (envStored 4 0) variant1 [alice] bothWorld =
     (bothWorld\<lparr>trace := [UserStats_Get 1 0, UserStats_Update 1 0
        \<lparr>UserStats_BestScores = \<lparr>BestScore_Score = 5, BestScore_Modifier = 3\<rparr> #
           replicate 4 \<lparr>BestScore_Score = 4, BestScore_Modifier = 0\<rparr>\<rparr>]\<rparr>, Return None) \<and>
   updateUserStats envGetFails variant1 [alice] world1 =
     (world1\<lparr>trace := [UserStats_Get 1 0]\<rparr>, Return None)"
proof -
  have g: "models_UserStats_Get (envStored s m) (trace w) (Player_ID alice) (Variant_ID variant1) =
      Inr \<lparr>UserStats_BestScores = stored s m\<rparr>" for s m w
    by (simp add: stats_defs)
  have i: "index (UserStats_BestScores \<lparr>UserStats_BestScores = stored s m\<rparr>)
      (int (length (Game_Players (game w))) - 2) =
        Some \<lparr>BestScore_Score = s, BestScore_Modifier = m\<rparr>"
    if "length (Game_Players (game w)) = 2" for s m w
    using that by (simp add: stats_defs)
  have l: "length (Game_Players (game world1)) = 2"
    "length (Game_Players (game deckPlaysWorld)) = 2"
    "length (Game_Players (game bothWorld)) = 2"
    by (simp_all add: deckPlaysWorld_def bothWorld_def example_defs)
  have f: "models_UserStats_Get envGetFails (trace world1) (Player_ID alice) (Variant_ID variant1) =
      Inl (GatewayError 3)"
    by (simp add: envGetFails_def)
  have a: "updateUserStats (envStored s m) variant1 [alice] w =
        updateUserStats (envStored s m) variant1 []
          (call (UserStats_Update (Player_ID alice) (Variant_ID variant1)
                   (\<lparr>UserStats_BestScores = stored s m\<rparr>\<lparr>UserStats_BestScores :=
                      (UserStats_BestScores \<lparr>UserStats_BestScores = stored s m\<rparr>)
                      [nat (int (length (Game_Players (game w))) - 2) :=
                         userBestScore (game w) \<lparr>BestScore_Score = s, BestScore_Modifier = m\<rparr>]\<rparr>))
             (call (UserStats_Get (Player_ID alice) (Variant_ID variant1)) w))"
    if "length (Game_Players (game w)) = 2" for s m w
    using updateUserStats_best [of w "envStored s m" alice variant1
        "\<lparr>UserStats_BestScores = stored s m\<rparr>"
        "\<lparr>BestScore_Score = s, BestScore_Modifier = m\<rparr>" "[]"]
      g [of s m w] i [OF that, of s m]
    by blast
  have m: "modifier (Game_Options (game deckPlaysWorld)) = 1"
    "modifier (Game_Options (game bothWorld)) = 3"
    using updateUserStats_best [of deckPlaysWorld] updateUserStats_best [of bothWorld]
    by (simp_all add: deckPlaysWorld_def bothWorld_def example_defs)
  have c: "updateUserStats envGetFails variant1 [alice] world1 =
      updateUserStats envGetFails variant1 []
        (call (UserStats_Get (Player_ID alice) (Variant_ID variant1)) world1)"
    using updateUserStats_best [of world1 envGetFails alice variant1 _ _ "[]" "GatewayError 3"] f
    by blast
  show ?thesis
    unfolding a [OF l(1)] a [OF l(2)] a [OF l(3)] c m
    by (simp add: stats_defs deckPlaysWorld_def bothWorld_def numeral_eq_Suc)
qed

text \<open>
  C4. Once the gateway has returned the stats of the variant, \<^verbatim>\<open>WriteDatabase\<close> always
  sends them back with \<^verbatim>\<open>VariantStats.Update\<close> (the gateway counts the game there). In
  a game with a modifier (deck plays or empty clues) the row sent is the row read,
  unchanged. In a game with no modifier the bucket of the player count holds the higher
  of the stored score and the score of the game: it changes only when the score of the
  game is strictly higher.
\<close>

theorem updateVariantStats_best:
  assumes "models_VariantStats_Get e (trace w) (Variant_ID v) = Inr stats"
  shows "(DeckPlays (Game_Options (game w)) \<or> EmptyClues (Game_Options (game w)) \<longrightarrow>
      updateVariantStats e v w =
        (w\<lparr>trace := trace w @ [VariantStats_Get (Variant_ID v),
                                  VariantStats_Update (Variant_ID v) (MaxScore v) stats]\<rparr>,
         Return (models_VariantStats_Update e (trace w @ [VariantStats_Get (Variant_ID v)])
                   (Variant_ID v) (MaxScore v) stats))) \<and>
    (\<not> DeckPlays (Game_Options (game w)) \<and> \<not> EmptyClues (Game_Options (game w)) \<and>
     index (VariantStats_BestScores stats) (int (length (Game_Players (game w))) - 2) = Some b \<longrightarrow>
      updateVariantStats e v w =
        (w\<lparr>trace := trace w @ [VariantStats_Get (Variant_ID v),
            VariantStats_Update (Variant_ID v) (MaxScore v)
              (stats\<lparr>VariantStats_BestScores := (VariantStats_BestScores stats)
                 [nat (int (length (Game_Players (game w))) - 2) :=
                    b\<lparr>BestScore_Score := max (Score (game w)) (BestScore_Score b)\<rparr>]\<rparr>)]\<rparr>,
         Return (models_VariantStats_Update e (trace w @ [VariantStats_Get (Variant_ID v)])
                   (Variant_ID v) (MaxScore v)
                   (stats\<lparr>VariantStats_BestScores := (VariantStats_BestScores stats)
                      [nat (int (length (Game_Players (game w))) - 2) :=
                         b\<lparr>BestScore_Score := max (Score (game w)) (BestScore_Score b)\<rparr>]\<rparr>))))"
  using assms
  by (auto simp: updateVariantStats_def variantStats_def variantBestScore_def Let_def call_def max_def)


theorem updateVariantStats_best_witness:
  "\<not> DeckPlays (Game_Options (game world1)) \<and> \<not> EmptyClues (Game_Options (game world1)) \<and>
   updateVariantStats (envStored 3 0) variant1 world1 =
     (world1\<lparr>trace := [VariantStats_Get 0, VariantStats_Update 0 25
        \<lparr>VariantStats_BestScores = \<lparr>BestScore_Score = 5, BestScore_Modifier = 0\<rparr> #
           replicate 4 \<lparr>BestScore_Score = 3, BestScore_Modifier = 0\<rparr>\<rparr>]\<rparr>, Return None) \<and>
   DeckPlays (Game_Options (game deckPlaysWorld)) \<and>
   updateVariantStats (envStored 3 0) variant1 deckPlaysWorld =
     (deckPlaysWorld\<lparr>trace := [VariantStats_Get 0, VariantStats_Update 0 25
        \<lparr>VariantStats_BestScores = replicate 5 \<lparr>BestScore_Score = 3, BestScore_Modifier = 0\<rparr>\<rparr>]\<rparr>,
      Return None)"
proof -
  have g: "models_VariantStats_Get (envStored 3 0) (trace w) (Variant_ID variant1) =
      Inr \<lparr>VariantStats_BestScores = stored 3 0\<rparr>" for w
    by (simp add: stats_defs)
  have i: "index (VariantStats_BestScores \<lparr>VariantStats_BestScores = stored 3 0\<rparr>)
      (int (length (Game_Players (game world1))) - 2) = Some \<lparr>BestScore_Score = 3, BestScore_Modifier = 0\<rparr>"
    by (simp add: stats_defs)
  have n: "\<not> DeckPlays (Game_Options (game world1)) \<and> \<not> EmptyClues (Game_Options (game world1))"
    by (simp add: stats_defs)
  have d: "DeckPlays (Game_Options (game deckPlaysWorld))"
    by (simp add: deckPlaysWorld_def stats_defs)
  from updateVariantStats_best [OF g, of world1 "\<lparr>BestScore_Score = 3, BestScore_Modifier = 0\<rparr>"] n i
  have a: "updateVariantStats (envStored 3 0) variant1 world1 =
        (world1\<lparr>trace := trace world1 @ [VariantStats_Get (Variant_ID variant1),
            VariantStats_Update (Variant_ID variant1) (MaxScore variant1)
              (\<lparr>VariantStats_BestScores = stored 3 0\<rparr>\<lparr>VariantStats_BestScores := (VariantStats_BestScores \<lparr>VariantStats_BestScores = stored 3 0\<rparr>)
                 [nat (int (length (Game_Players (game world1))) - 2) :=
                    \<lparr>BestScore_Score = 3, BestScore_Modifier = 0\<rparr>\<lparr>BestScore_Score := max (Score (game world1)) (BestScore_Score \<lparr>BestScore_Score = 3, BestScore_Modifier = 0\<rparr>)\<rparr>]\<rparr>)]\<rparr>,
         Return (models_VariantStats_Update (envStored 3 0) (trace world1 @ [VariantStats_Get (Variant_ID variant1)])
                   (Variant_ID variant1) (MaxScore variant1)
                   (\<lparr>VariantStats_BestScores = stored 3 0\<rparr>\<lparr>VariantStats_BestScores := (VariantStats_BestScores \<lparr>VariantStats_BestScores = stored 3 0\<rparr>)
                      [nat (int (length (Game_Players (game world1))) - 2) :=
                         \<lparr>BestScore_Score = 3, BestScore_Modifier = 0\<rparr>\<lparr>BestScore_Score := max (Score (game world1)) (BestScore_Score \<lparr>BestScore_Score = 3, BestScore_Modifier = 0\<rparr>)\<rparr>]\<rparr>)))"
    by blast
  from updateVariantStats_best [OF g, of deckPlaysWorld] d
  have b: "updateVariantStats (envStored 3 0) variant1 deckPlaysWorld =
        (deckPlaysWorld\<lparr>trace := trace deckPlaysWorld @ [VariantStats_Get (Variant_ID variant1),
                                  VariantStats_Update (Variant_ID variant1) (MaxScore variant1) \<lparr>VariantStats_BestScores = stored 3 0\<rparr>]\<rparr>,
         Return (models_VariantStats_Update (envStored 3 0) (trace deckPlaysWorld @ [VariantStats_Get (Variant_ID variant1)])
                   (Variant_ID variant1) (MaxScore variant1) \<lparr>VariantStats_BestScores = stored 3 0\<rparr>))"
    by blast
  show ?thesis
    unfolding a b using n d by (simp add: deckPlaysWorld_def stats_defs numeral_eq_Suc)
qed

text \<open>
  C6. When the end condition is IdleTimeout, \<^verbatim>\<open>ConvertToSharedReplay\<close> creates no
  spectator for any player, present or not: the spectators of the table are those it had.
  When there are none, the table is removed from the registry and the conversion stops
  there: the trace gains no call, nobody is notified, and the table that got the replay
  name is in the registry no more.
\<close>

theorem ConvertToSharedReplay_idle:
  assumes "EndCondition (game w) = EndConditionIdleTimeout e"
  shows "Spectators (table (fst (ConvertToSharedReplay e w))) = Spectators (table w) \<and>
    (Spectators (table w) = [] \<longrightarrow>
       ConvertToSharedReplay e w =
         (w\<lparr>table := (table w)\<lparr>Table_Replay := True,
                 Table_Name := ''Shared replay for game #'' @ Itoa (Game_ID (game w)),
                 Progress := 100\<rparr>,
             game := (game w)\<lparr>EndTurn := Turn (game w), Turn := wrap_int (Turn (game w) - 1)\<rparr>,
             tables := tables w - {Table_ID (table w)}\<rparr>,
          Return ()) \<and>
       Table_ID (table w) \<notin> tables (fst (ConvertToSharedReplay e w)))"
proof -
  define w1 where "w1 = w\<lparr>table := (table w)\<lparr>Table_Replay := True,
                     Table_Name := ''Shared replay for game #'' @ Itoa (Game_ID (game w)),
                     Progress := 100\<rparr>,
                  game := (game w)\<lparr>EndTurn := Turn (game w),
                     Turn := wrap_int (Turn (game w) - 1)\<rparr>\<rparr>"
  have "EndCondition (game w1) = EndConditionIdleTimeout e" using assms by (simp add: w1_def)
  from convertPlayers_idle [OF this, of "Table_Players (table w1)" False]
  obtain off where c: "convertPlayers e (Table_Players (table w1)) False w1 = (w1, Return off)"
    by (auto simp: prod_eq_iff)
  have a: "Spectators (table (fst (ConvertToSharedReplay e w))) = Spectators (table w)"
    using c by (simp add: ConvertToSharedReplay_Spectators w1_def)
  have "Spectators (table w) = [] \<Longrightarrow>
      ConvertToSharedReplay e w = (w1\<lparr>tables := tables w1 - {Table_ID (table w1)}\<rparr>, Return ())"
    unfolding ConvertToSharedReplay_def Let_def w1_def [symmetric]
    by (simp add: c) (simp add: w1_def)
  then show ?thesis using a by (simp add: w1_def)
qed

theorem ConvertToSharedReplay_idle_witness:
  "EndCondition (game idleWorld) = EndConditionIdleTimeout env1 \<and>
   Spectators (table idleWorld) = [] \<and>
   map Present (Table_Players (table idleWorld)) = [True, True] \<and>
   Spectators (table (fst (ConvertToSharedReplay env1 idleWorld))) = [] \<and>
   tables idleWorld = {1} \<and>
   tables (fst (ConvertToSharedReplay env1 idleWorld)) = {} \<and>
   trace (fst (ConvertToSharedReplay env1 idleWorld)) = []"
proof -
  have h: "EndCondition (game idleWorld) = EndConditionIdleTimeout env1"
    by (simp add: idleWorld_def example_defs)
  have s: "Spectators (table idleWorld) = []" by (simp add: idleWorld_def example_defs)
  show ?thesis
    using ConvertToSharedReplay_idle [OF h] s h
    by (simp add: idleWorld_def example_defs)
qed

text \<open>
  C1. The election of the leader does not do what the claim says. With the owner gone and a
  spectator watching, when no player is present the owner is left at \<open>-1\<close> and the first
  spectator is not elected; when a player is present the first spectator (here one who was
  watching before the end) is elected and not the first present player. The test after the
  loop reads \<^verbatim>\<open>t.Owner != -1\<close> where its comment says that all players are away
  (\<open>electLeader_Owner\<close> and \<open>firstPresent_none\<close> state it for every table).
\<close>

theorem ConvertToSharedReplay_leader_lost:
  "Owner (table awayWorld) = 1 \<and>
   map Present (Table_Players (table awayWorld)) = [False, False] \<and>
   map Spectator_ID (Spectators (table (fst (ConvertToSharedReplay env1 awayWorld)))) = [3] \<and>
   Owner (table (fst (ConvertToSharedReplay env1 awayWorld))) = - 1 \<and>
   map Present (Table_Players (table watchedWorld)) = [False, True] \<and>
   map Player_ID (Table_Players (table watchedWorld)) = [1, 2] \<and>
   map Spectator_ID (Spectators (table (fst (ConvertToSharedReplay env1 watchedWorld)))) = [3, 2] \<and>
   Owner (table (fst (ConvertToSharedReplay env1 watchedWorld))) = 3"
  by (simp add: awayWorld_def watchedWorld_def carol_def example_defs conv_defs)

text \<open>
  C3. Let \<open>w2\<close> be the world in which \<^verbatim>\<open>End\<close>, on a game that is not a replay, calls
  \<^verbatim>\<open>WriteDatabase\<close>, and \<open>w3\<close> the world that call leaves. If the call returns an error,
  \<^verbatim>\<open>End\<close> returns at once with \<open>w3\<close>. If it returns no error and the count of the games
  of the seed fails, \<^verbatim>\<open>End\<close> returns with \<open>w3\<close> and that one query. In both worlds
  nothing has happened since \<open>w2\<close> but calls to the storage gateway: no \<^verbatim>\<open>gameHistory\<close>
  message and no call of \<^verbatim>\<open>ConvertToSharedReplay\<close> is in the trace, the table is the table
  \<^verbatim>\<open>End\<close> was given (not a replay, its spectators and owner as before), the registry is
  the same. The trace of \<open>w2\<close>, with every notification sent before the write, is still
  the beginning of the trace, and it begins with the trace \<^verbatim>\<open>End\<close> was given.
\<close>

theorem End_stops_on_failed_write:
  assumes "\<not> Replay (Game_Options (game w))"
    and "notifyEnd e (finish e w) = (w2, Return ())"
    and "WriteDatabase e w2 = (w3, r)"
  shows "(r = Return (Some err) \<longrightarrow> End e w = (w3, Return ())) \<and>
    (r = Return None \<and> models_Games_GetNumSimilar e (trace w3) (Seed (game w3)) = Inl err \<longrightarrow>
       End e w = (call (Games_GetNumSimilar (Seed (game w3))) w3, Return ())) \<and>
    wrote (Score (game w2)) w2 (call (Games_GetNumSimilar (Seed (game w3))) w3) \<and>
    wrote (Score (game w2)) w2 w3 \<and>
    table w3 = table w \<and> tables w3 = tables w \<and>
    take (length (trace w)) (trace w2) = trace w"
proof -
  have wr: "wrote (Score (game w2)) w2 w3"
    using WriteDatabase_wrote [of w2 e] by (simp add: assms(3))
  have wr': "wrote (Score (game w2)) w2 (call (Games_GetNumSimilar (Seed (game w3))) w3)"
    by (rule wrote_call_after [OF wr]) simp
  have t2: "table w2 = table w" "tables w2 = tables w"
    using notifyEnd_frame [of e "finish e w"] by (simp_all add: assms(2))
  have t3: "table w3 = table w" "tables w3 = tables w"
    using wr t2 unfolding wrote_iff by simp_all
  have "told 0 (finish e w) w2"
    using told_notifyEnd [of 0 "finish e w" e] by (simp add: assms(2))
  then have "told 0 w w2" by (rule told_trans [OF told_finish])
  then have p: "take (length (trace w)) (trace w2) = trace w" by (simp add: told_def)
  show ?thesis
    using assms wr wr' t3 p by (simp add: End_def Let_def)
qed

theorem End_stops_on_failed_write_witness:
  "\<not> Replay (Game_Options (game world1)) \<and>
   snd (notifyEnd envWriteFails (finish envWriteFails world1)) = Return () \<and>
   snd (WriteDatabase envWriteFails (beforeWrite envWriteFails)) = Return (Some (GatewayError 1)) \<and>
   End envWriteFails world1 = (fst (WriteDatabase envWriteFails (beforeWrite envWriteFails)), Return ()) \<and>
   table (fst (End envWriteFails world1)) = table1 \<and>
   tables (fst (End envWriteFails world1)) = {1} \<and>
   map (storage 5) (trace (fst (End envWriteFails world1))) = replicate 12 False @ [True] \<and>
   snd (notifyEnd envCountFails (finish envCountFails world1)) = Return () \<and>
   snd (WriteDatabase envCountFails (beforeWrite envCountFails)) = Return None \<and>
   table (fst (End envCountFails world1)) = table1 \<and>
   tables (fst (End envCountFails world1)) = {1} \<and>
   map (storage 5) (trace (fst (End envCountFails world1))) = replicate 12 False @ replicate 13 True"
proof -
  let ?w2 = "beforeWrite envWriteFails" and ?v2 = "beforeWrite envCountFails"
  let ?v3 = "fst (WriteDatabase envCountFails ?v2)"
  have live: "\<not> Replay (Game_Options (game world1))" by (simp add: example_defs)
  have n1: "snd (notifyEnd envWriteFails (finish envWriteFails world1)) = Return ()"
    by (simp add: envWriteFails_def example_defs end_defs)
  have n2: "snd (notifyEnd envCountFails (finish envCountFails world1)) = Return ()"
    by (simp add: envCountFails_def example_defs end_defs)
  have f1: "snd (WriteDatabase envWriteFails ?w2) = Return (Some (GatewayError 1))"
    by (simp add: beforeWrite_def envWriteFails_def example_defs end_defs)
  have f2: "snd (WriteDatabase envCountFails ?v2) = Return None"
    by (simp add: beforeWrite_def envCountFails_def example_defs end_defs)
  have c2: "models_Games_GetNumSimilar envCountFails (trace ?v3) (Seed (game ?v3)) =
      Inl (GatewayError 2)"
    by (simp add: envCountFails_def)
  have p1: "notifyEnd envWriteFails (finish envWriteFails world1) = (?w2, Return ())"
    using n1 by (simp add: prod_eq_iff beforeWrite_def)
  have p2: "notifyEnd envCountFails (finish envCountFails world1) = (?v2, Return ())"
    using n2 by (simp add: prod_eq_iff beforeWrite_def)
  have d1: "WriteDatabase envWriteFails ?w2 =
      (fst (WriteDatabase envWriteFails ?w2), Return (Some (GatewayError 1)))"
    using f1 by (simp add: prod_eq_iff)
  have d2: "WriteDatabase envCountFails ?v2 = (?v3, Return None)"
    using f2 by (simp add: prod_eq_iff)
  have e1: "End envWriteFails world1 = (fst (WriteDatabase envWriteFails ?w2), Return ())"
    using End_stops_on_failed_write [OF live p1 d1, of "GatewayError 1"] by simp
  have e2: "End envCountFails world1 =
      (call (Games_GetNumSimilar (Seed (game ?v3))) ?v3, Return ())"
    using End_stops_on_failed_write [OF live p2 d2, of "GatewayError 2"] c2 by simp
  have t1: "table (fst (End envWriteFails world1)) = table1 \<and>
      tables (fst (End envWriteFails world1)) = {1} \<and>
      map (storage 5) (trace (fst (End envWriteFails world1))) = replicate 12 False @ [True]"
    unfolding e1 by (simp add: beforeWrite_def envWriteFails_def example_defs end_defs numeral_eq_Suc)
  have t2: "table (fst (End envCountFails world1)) = table1 \<and>
      tables (fst (End envCountFails world1)) = {1} \<and>
      map (storage 5) (trace (fst (End envCountFails world1))) =
        replicate 12 False @ replicate 13 True"
    unfolding e2 by (simp add: beforeWrite_def envCountFails_def example_defs end_defs numeral_eq_Suc)
  show ?thesis using live n1 n2 f1 f2 e1 t1 t2 by simp
qed

text \<open>
  C10. With the methods of a session as the specification has them (\<open>pushed\<close>): the
  \<^verbatim>\<open>gameHistory\<close> loop of \<^verbatim>\<open>End\<close> sends one message to each player who has a connection
  handle, in order, and nothing to a player whose handle is nil; the loop over the
  spectators in \<^verbatim>\<open>ConvertToSharedReplay\<close> sends the replay-leader activation, the note list
  and the \<^verbatim>\<open>databaseID\<close> message to each spectator who has a handle, in order, and nothing
  to one whose handle is nil. The two calls that work on the handle itself,
  \<^verbatim>\<open>Session.Set\<close> and \<^verbatim>\<open>notifyAllUser\<close>, are never made on a nil handle, anywhere in
  \<^verbatim>\<open>End\<close> or \<^verbatim>\<open>ConvertToSharedReplay\<close>: the source tests the handle before each.
\<close>

theorem direct_messages_reach_live_handles:
  "deliveries (newEvents w (sendHistory w n)) =
     map (\<lambda>s. (''Emit gameHistory'', s))
       (List.map_filter Player_Session (Table_Players (table w))) \<and>
   deliveries (newEvents w (foldl (notifySpectator e) w sps)) =
     concat (map (\<lambda>s. [(''NotifyReplayLeader'', s), (''NotifyNoteList'', s), (''Emit databaseID'', s)])
       (List.map_filter Spectator_Session sps)) \<and>
   take (length (trace w)) (trace (fst (End e w))) = trace w \<and>
   (\<forall>k x. Session_Set None k x \<notin> set (newEvents w (fst (End e w)))) \<and>
   NotifyAllUser None \<notin> set (newEvents w (fst (End e w))) \<and>
   take (length (trace w)) (trace (fst (ConvertToSharedReplay e w))) = trace w \<and>
   (\<forall>k x. Session_Set None k x \<notin> set (newEvents w (fst (ConvertToSharedReplay e w)))) \<and>
   NotifyAllUser None \<notin> set (newEvents w (fst (ConvertToSharedReplay e w)))"
proof -
  have a: "ev \<notin> set (newEvents w w')" if "only handled w w'" "\<not> handled ev" for ev w'
    using that by (auto simp: only_def list_all_iff)
  show ?thesis
    using handled_End [of w e] handled_ConvertToSharedReplay [of w e]
    by (simp add: deliveries_sendHistory deliveries_notifySpectator a) (simp add: only_def)
qed

theorem direct_messages_reach_live_handles_witness:
  "map Player_Session (Table_Players (table offlineWorld)) =
     [Some \<lparr>Session_ID = 1, IsClosed = False\<rparr>, None] \<and>
   deliveries (newEvents offlineWorld (sendHistory offlineWorld 1)) =
     [(''Emit gameHistory'', \<lparr>Session_ID = 1, IsClosed = False\<rparr>)] \<and>
   map Spectator_Session [dave, carol] = [None, Some \<lparr>Session_ID = 3, IsClosed = False\<rparr>] \<and>
   deliveries (newEvents offlineWorld (foldl (notifySpectator env1) offlineWorld [dave, carol])) =
     [(''NotifyReplayLeader'', \<lparr>Session_ID = 3, IsClosed = False\<rparr>),
      (''NotifyNoteList'', \<lparr>Session_ID = 3, IsClosed = False\<rparr>),
      (''Emit databaseID'', \<lparr>Session_ID = 3, IsClosed = False\<rparr>)]"
  using direct_messages_reach_live_handles [of offlineWorld 1 env1 "[dave, carol]"]
  by (simp add: offlineWorld_def dave_def carol_def example_defs List.map_filter_simps)

end
